theory Spec2Isabelle
  imports Complex_Main
begin

section \<open>Configuration\<close>

text \<open>
  The three module-level constants of \<^verbatim>\<open>app.py\<close>: the QR refresh rate, the grace period of
  a QR code and the reuse window of the replay table, all in seconds.
\<close>

definition INTERVAL :: int where
  "INTERVAL = 10"

definition QR_GRACE_PERIOD :: int where
  "QR_GRACE_PERIOD = 30"

definition QR_REUSE_WINDOW :: int where
  "QR_REUSE_WINDOW = 300"

section \<open>Python strings and numbers\<close>

text \<open>
  A Python \<^verbatim>\<open>str\<close> is modelled as a list of code points below 256, one \<^typ>\<open>char\<close> each.
  \<^verbatim>\<open>str(n)\<close> of an integer, as an f-string prints it, is the decimal numeral with a leading
  minus sign for negative numbers.
\<close>

definition digits10 :: string where
  "digits10 = ''0123456789''"

fun str_nat :: "nat \<Rightarrow> string" where
  "str_nat n = (if n < 10 then [digits10 ! n] else str_nat (n div 10) @ [digits10 ! (n mod 10)])"

declare str_nat.simps [simp del]

definition str_int :: "int \<Rightarrow> string" where
  "str_int i = (if i < 0 then CHR ''-'' # str_nat (nat (- i)) else str_nat (nat i))"

text \<open>
  \<^verbatim>\<open>str.strip()\<close> removes leading and trailing whitespace; the whitespace code points
  below 256 are the ones \<^verbatim>\<open>str.isspace\<close> accepts.
\<close>

definition is_space :: "char \<Rightarrow> bool" where
  "is_space c = (c \<in> set [CHR 0x09, CHR 0x0A, CHR 0x0B, CHR 0x0C, CHR 0x0D, CHR 0x1C, CHR 0x1D,
                           CHR 0x1E, CHR 0x1F, CHR 0x20, CHR 0x85, CHR 0xA0])"

definition strip :: "string \<Rightarrow> string" where
  "strip s = rev (dropWhile is_space (rev (dropWhile is_space s)))"

text \<open>
  \<^verbatim>\<open>message.encode("utf-8")\<close>: a code point below 128 is one byte, a code point from 128 to
  255 is the two bytes \<^verbatim>\<open>110000xx 10xxxxxx\<close>. \<^term>\<open>Char\<close> lists the bits from the least
  significant one.
\<close>

type_synonym bytes = "char list"

fun utf8_char :: "char \<Rightarrow> bytes" where
  "utf8_char (Char b0 b1 b2 b3 b4 b5 b6 b7) =
     (if b7 then [Char b6 True False False False False True True,
                  Char b0 b1 b2 b3 b4 b5 False True]
      else [Char b0 b1 b2 b3 b4 b5 b6 b7])"

definition utf8_encode :: "string \<Rightarrow> bytes" where
  "utf8_encode s = concat (map utf8_char s)"

text \<open>
  \<^verbatim>\<open>time.time()\<close> is a float; a clock reading is modelled as a real number. \<^verbatim>\<open>int(x)\<close>
  truncates towards zero, and \<^verbatim>\<open>x // y\<close> on floats is the floor of the quotient, still a
  float.
\<close>

definition py_int :: "real \<Rightarrow> int" where
  "py_int x = (if 0 \<le> x then \<lfloor>x\<rfloor> else \<lceil>x\<rceil>)"

definition py_floordiv :: "real \<Rightarrow> real \<Rightarrow> real" where
  "py_floordiv x y = of_int \<lfloor>x / y\<rfloor>"

section \<open>Cryptography functions\<close>

text \<open>
  The \<^verbatim>\<open>base58\<close> and \<^verbatim>\<open>cryptography\<close> packages are not part of the repository: their
  entry points are the fields of a record that every function below takes as a parameter.
  \<^item> \<open>b58decode\<close> raises \<^verbatim>\<open>ValueError\<close> on a string that is not base-58;
  \<^item> \<open>ed25519_verify k s m\<close> is whether \<^verbatim>\<open>public_key.verify(s, m)\<close> returns for the
    32-byte public key \<open>k\<close>; when it does not, the library raises \<^verbatim>\<open>InvalidSignature\<close>;
  \<^item> \<open>ed25519_sign k m\<close> is \<^verbatim>\<open>private_key.sign(m)\<close> for the private key with seed \<open>k\<close>;
  \<^item> \<open>ed25519_generate n\<close> is the seed and the public key of the \<open>n\<close>-th key pair that
    \<^verbatim>\<open>Ed25519PrivateKey.generate()\<close> draws from the operating system's entropy.
\<close>

datatype exn = ValueError | InvalidSignature

record platform =
  b58decode :: "string \<Rightarrow> exn + bytes"
  b58encode :: "bytes \<Rightarrow> string"
  ed25519_verify :: "bytes \<Rightarrow> bytes \<Rightarrow> bytes \<Rightarrow> bool"
  ed25519_sign :: "bytes \<Rightarrow> bytes \<Rightarrow> bytes"
  ed25519_generate :: "nat \<Rightarrow> bytes \<times> bytes"

text \<open>
  \<^verbatim>\<open>generate_ed25519_keypair\<close>: the private key in the 64-byte form (seed, then public key)
  and the public key, both in base 58.
\<close>

definition generate_ed25519_keypair :: "platform \<Rightarrow> nat \<Rightarrow> string \<times> string" where
  "generate_ed25519_keypair P n =
     (let (private_seed, public_bytes) = ed25519_generate P n;
          private_key_full = private_seed @ public_bytes;
          private_key_b58 = b58encode P private_key_full;
          public_key_b58 = b58encode P public_bytes
      in (private_key_b58, public_key_b58))"

definition sign_message :: "platform \<Rightarrow> bytes \<Rightarrow> string \<Rightarrow> string" where
  "sign_message P private_key message =
     (let message_bytes = utf8_encode message;
          signature = ed25519_sign P private_key message_bytes
      in b58encode P signature)"

text \<open>
  \<^verbatim>\<open>Ed25519PublicKey.from_public_bytes\<close> raises \<^verbatim>\<open>ValueError\<close> unless it is given exactly
  32 bytes.
\<close>

definition from_public_bytes :: "bytes \<Rightarrow> exn + bytes" where
  "from_public_bytes data = (if length data = 32 then Inr data else Inl ValueError)"

text \<open>
  The body of the \<^verbatim>\<open>try\<close> block of \<^verbatim>\<open>verify_signature\<close>: every statement that can raise
  is a branch that returns the exception.
\<close>

definition verify_signature_try :: "platform \<Rightarrow> string \<Rightarrow> string \<Rightarrow> string \<Rightarrow> exn + bool" where
  "verify_signature_try P public_key_b58 message signature_b58 =
     (case b58decode P public_key_b58 of
        Inl e \<Rightarrow> Inl e
      | Inr public_bytes \<Rightarrow>
          (case from_public_bytes public_bytes of
             Inl e \<Rightarrow> Inl e
           | Inr public_key \<Rightarrow>
               (let message_bytes = utf8_encode message in
                case b58decode P signature_b58 of
                  Inl e \<Rightarrow> Inl e
                | Inr signature_bytes \<Rightarrow>
                    if ed25519_verify P public_key signature_bytes message_bytes
                    then Inr True
                    else Inl InvalidSignature)))"

text \<open>
  \<^verbatim>\<open>verify_signature\<close>: the handler \<^verbatim>\<open>except (InvalidSignature, Exception)\<close> catches every
  exception the body raises and returns \<^verbatim>\<open>False\<close>, so the call itself always returns a
  boolean.
\<close>

definition verify_signature :: "platform \<Rightarrow> string \<Rightarrow> string \<Rightarrow> string \<Rightarrow> bool" where
  "verify_signature P public_key_b58 message signature_b58 =
     (case verify_signature_try P public_key_b58 message signature_b58 of
        Inr b \<Rightarrow> b
      | Inl e \<Rightarrow> False)"

section \<open>QR code generation\<close>

text \<open>\<^verbatim>\<open>get_time_slot\<close>, for the clock reading \<open>t\<close> that its call of \<^verbatim>\<open>time.time()\<close> returns.\<close>

definition get_time_slot :: "real \<Rightarrow> int" where
  "get_time_slot t = py_int (py_floordiv t (of_int INTERVAL)) * INTERVAL"

text \<open>
  The dictionary that \<^verbatim>\<open>generate_qr_data\<close> builds, before \<^verbatim>\<open>json.dumps\<close>. The server's key
  pair is a global of the module: the seed of \<^verbatim>\<open>server_private_key\<close> and the string
  \<^verbatim>\<open>server_public_key_b58\<close> are parameters.
\<close>

record qr_data =
  qd_message :: string
  qd_signature :: string
  qd_timestamp :: int
  qd_server_public_key :: string

definition generate_qr_data :: "platform \<Rightarrow> bytes \<Rightarrow> string \<Rightarrow> real \<Rightarrow> qr_data" where
  "generate_qr_data P server_private_key server_public_key_b58 t =
     (let timestamp = get_time_slot t;
          message = ''attendance:'' @ str_int timestamp @ '':'' @ server_public_key_b58;
          signature = sign_message P server_private_key message
      in \<lparr>qd_message = message, qd_signature = signature, qd_timestamp = timestamp,
          qd_server_public_key = server_public_key_b58\<rparr>)"

section \<open>Stored data\<close>

text \<open>
  \<^verbatim>\<open>employees.json\<close> is a dictionary from employee id to the employee's data, in insertion
  order: an association list. \<^verbatim>\<open>attendance.json\<close> is a list of records. Both files are read
  and written whole by \<^verbatim>\<open>load_employees\<close>, \<^verbatim>\<open>save_employees\<close>, \<^verbatim>\<open>load_attendance\<close> and
  \<^verbatim>\<open>save_attendance\<close>; a missing file reads as the empty dictionary or the empty list.
\<close>

record employee =
  emp_name :: string
  emp_email :: string
  emp_department :: string
  emp_public_key :: string
  emp_registered_at :: string

record attendance_record =
  rec_emp_id :: string
  rec_employee_name :: string
  rec_date :: string
  rec_in_time :: string
  rec_in_timestamp :: string
  rec_out_time :: "string option"
  rec_out_timestamp :: "string option"
  rec_status :: string
  rec_qr_timestamp :: int
  rec_verified :: bool

text \<open>
  The state of the server: the two files, the global \<^verbatim>\<open>recent_qr_usage\<close>
  (\<^verbatim>\<open>{emp_id: {slot: timestamp}}\<close>) and the number of key pairs drawn so far.
\<close>

record server_state =
  employees_file :: "(string \<times> employee) list"
  attendance_file :: "attendance_record list"
  recent_qr_usage :: "string \<rightharpoonup> (int \<rightharpoonup> int)"
  keypairs_generated :: nat

definition initial_state :: server_state where
  "initial_state = \<lparr>employees_file = [], attendance_file = [], recent_qr_usage = Map.empty,
                      keypairs_generated = 0\<rparr>"

text \<open>\<^verbatim>\<open>d[k] = v\<close> on a dictionary: an existing key keeps its place, a new key goes last.\<close>

fun dict_set :: "'k \<Rightarrow> 'v \<Rightarrow> ('k \<times> 'v) list \<Rightarrow> ('k \<times> 'v) list" where
  "dict_set k v [] = [(k, v)]"
| "dict_set k v ((k', v') # kvs) =
     (if k' = k then (k, v) # kvs else (k', v') # dict_set k v kvs)"

text \<open>\<^verbatim>\<open>data.get(key, "")\<close> for a key of the request that holds a string or is absent.\<close>

definition get_str :: "string option \<Rightarrow> string" where
  "get_str v = (case v of None \<Rightarrow> [] | Some s \<Rightarrow> s)"

section \<open>Registration\<close>

record reg_request =
  reg_emp_id :: "string option"
  reg_name :: "string option"
  reg_email :: "string option"
  reg_department :: "string option"

record reg_response =
  reg_success :: bool
  reg_message :: string
  reg_resp_emp_id :: "string option"
  reg_public_key :: "string option"
  reg_private_key :: "string option"

definition reg_failure :: "string \<Rightarrow> reg_response" where
  "reg_failure m = \<lparr>reg_success = False, reg_message = m, reg_resp_emp_id = None,
                     reg_public_key = None, reg_private_key = None\<rparr>"

text \<open>
  \<^verbatim>\<open>api_register\<close>, for the request body \<open>data\<close> and the string \<open>now_iso\<close> that
  \<^verbatim>\<open>datetime.now().isoformat()\<close> returns.
\<close>

definition api_register ::
  "platform \<Rightarrow> server_state \<Rightarrow> reg_request \<Rightarrow> string \<Rightarrow> server_state \<times> reg_response" where
  "api_register P st data now_iso =
     (let emp_id = strip (get_str (reg_emp_id data));
          name = strip (get_str (reg_name data));
          email = strip (get_str (reg_email data));
          department = strip (get_str (reg_department data))
      in if emp_id = [] \<or> name = [] then
           (st, reg_failure ''Employee ID and Name are required'')
         else
           let employees = employees_file st in
           if emp_id \<in> set (map fst employees) then
             (st, reg_failure (''Employee '' @ emp_id @ '' already registered''))
           else
             let (private_key_b58, public_key_b58) =
                   generate_ed25519_keypair P (keypairs_generated st);
                 employees' = dict_set emp_id
                   \<lparr>emp_name = name, emp_email = email, emp_department = department,
                    emp_public_key = public_key_b58, emp_registered_at = now_iso\<rparr> employees
             in (st\<lparr>employees_file := employees',
                    keypairs_generated := Suc (keypairs_generated st)\<rparr>,
                 \<lparr>reg_success = True,
                  reg_message = ''Employee '' @ name @ '' registered successfully'',
                  reg_resp_emp_id = Some emp_id,
                  reg_public_key = Some public_key_b58,
                  reg_private_key = Some private_key_b58\<rparr>))"

section \<open>Marking attendance\<close>

text \<open>
  The body of a POST to \<^verbatim>\<open>/api/attendance\<close>. \<open>req_server_qr\<close> is \<open>None\<close> when the key
  \<^verbatim>\<open>server_qr\<close> is absent or holds the empty dictionary; a key of the dictionary that is
  absent is \<open>None\<close>. \<open>req_confirm_checkout\<close> is the truth value of
  \<^verbatim>\<open>data.get("confirm_checkout")\<close>.
\<close>

record server_qr =
  sq_message :: "string option"
  sq_signature :: "string option"
  sq_timestamp :: "int option"
  sq_server_public_key :: "string option"

record att_request =
  req_server_qr :: "server_qr option"
  req_public_key :: "string option"
  req_employee_signature :: "string option"
  req_confirm_checkout :: bool

text \<open>
  What the handler reads from its environment: the two calls of \<^verbatim>\<open>time.time()\<close> (for
  \<^verbatim>\<open>current_time\<close>, and inside \<^verbatim>\<open>get_time_slot\<close>), and \<^verbatim>\<open>datetime.now()\<close> through its three
  renderings \<^verbatim>\<open>strftime("%Y-%m-%d")\<close>, \<^verbatim>\<open>strftime("%H:%M:%S")\<close> and \<^verbatim>\<open>isoformat()\<close>.
\<close>

record clock =
  time_current :: real
  time_slot_read :: real
  now_date :: string
  now_time :: string
  now_isoformat :: string

record response =
  resp_success :: bool
  resp_message :: string
  resp_employee_name :: "string option"
  resp_action :: "string option"
  resp_in_time :: "string option"
  resp_out_time :: "string option"
  resp_status :: "string option"

definition failure :: "string \<Rightarrow> response" where
  "failure m = \<lparr>resp_success = False, resp_message = m, resp_employee_name = None,
                 resp_action = None, resp_in_time = None, resp_out_time = None,
                 resp_status = None\<rparr>"

text \<open>The loop over \<^verbatim>\<open>employees.items()\<close>: the first entry with the given public key.\<close>

fun find_employee :: "(string \<times> employee) list \<Rightarrow> string \<Rightarrow> (string \<times> employee) option" where
  "find_employee [] employee_public_key = None"
| "find_employee ((eid, emp_data) # rest) employee_public_key =
     (if emp_public_key emp_data = employee_public_key then Some (eid, emp_data)
      else find_employee rest employee_public_key)"

text \<open>
  The loop over \<^verbatim>\<open>attendance\<close>: the position of the first record of the employee and the
  date. The record found is an alias of the list element, which the check-out updates in
  place.
\<close>

fun find_record :: "attendance_record list \<Rightarrow> string \<Rightarrow> string \<Rightarrow> nat option" where
  "find_record [] emp_id current_date = None"
| "find_record (r # rs) emp_id current_date =
     (if rec_emp_id r = emp_id \<and> rec_date r = current_date then Some 0
      else map_option Suc (find_record rs emp_id current_date))"

text \<open>
  The part of \<^verbatim>\<open>api_attendance\<close> after all verifications passed (from the comment
  \<^verbatim>\<open>All Verifications Passed - Mark Attendance\<close> on). Every branch ends in a
  \<^verbatim>\<open>return\<close>: the statements after the \<^verbatim>\<open>if\<close>/\<^verbatim>\<open>else\<close>, which would store
  \<^verbatim>\<open>current_time\<close> in \<^verbatim>\<open>recent_qr_usage[emp_id][time_slot]\<close>, are never executed, so no
  branch changes \<^verbatim>\<open>recent_qr_usage\<close>.
\<close>

definition mark_attendance ::
  "server_state \<Rightarrow> string \<Rightarrow> employee \<Rightarrow> bool \<Rightarrow> int \<Rightarrow> clock \<Rightarrow> server_state \<times> response" where
  "mark_attendance st emp_id employee confirm_checkout qr_timestamp clk =
     (let current_date = now_date clk;
          attendance = attendance_file st
      in case find_record attendance emp_id current_date of
           Some i \<Rightarrow>
             (let existing_record = attendance ! i in
              case rec_out_time existing_record of
                None \<Rightarrow>
                  if confirm_checkout then
                    let existing_record' = existing_record
                          \<lparr>rec_out_time := Some (now_time clk),
                           rec_out_timestamp := Some (now_isoformat clk),
                           rec_status := ''Present''\<rparr>
                    in (st\<lparr>attendance_file := attendance[i := existing_record']\<rparr>,
                        \<lparr>resp_success = True,
                         resp_message = ''Check-out successful'',
                         resp_employee_name = Some (emp_name employee),
                         resp_action = Some ''check-out'',
                         resp_in_time = Some (rec_in_time existing_record'),
                         resp_out_time = rec_out_time existing_record',
                         resp_status = Some ''Present''\<rparr>)
                  else
                    (st,
                     \<lparr>resp_success = False,
                      resp_message = ''Confirm check-out'',
                      resp_employee_name = Some (emp_name employee),
                      resp_action = None,
                      resp_in_time = Some (rec_in_time existing_record),
                      resp_out_time = Some (now_time clk),
                      resp_status = Some ''Pending Check-out''\<rparr>)
              | Some out_time \<Rightarrow>
                  (st,
                   \<lparr>resp_success = False,
                    resp_message = ''Already checked out today'',
                    resp_employee_name = Some (emp_name employee),
                    resp_action = None,
                    resp_in_time = Some (rec_in_time existing_record),
                    resp_out_time = Some out_time,
                    resp_status = Some ''Already Present''\<rparr>))
         | None \<Rightarrow>
             (let attendance_record =
                    \<lparr>rec_emp_id = emp_id,
                     rec_employee_name = emp_name employee,
                     rec_date = current_date,
                     rec_in_time = now_time clk,
                     rec_in_timestamp = now_isoformat clk,
                     rec_out_time = None,
                     rec_out_timestamp = None,
                     rec_status = ''Present'',
                     rec_qr_timestamp = qr_timestamp,
                     rec_verified = True\<rparr>
              in (st\<lparr>attendance_file := attendance @ [attendance_record]\<rparr>,
                  \<lparr>resp_success = True,
                   resp_message = ''Check-in successful'',
                   resp_employee_name = Some (emp_name employee),
                   resp_action = Some ''check-in'',
                   resp_in_time = Some (rec_in_time attendance_record),
                   resp_out_time = None,
                   resp_status = Some ''Present''\<rparr>)))"

text \<open>
  The replay test of \<^verbatim>\<open>api_attendance\<close>: the three nested \<^verbatim>\<open>if\<close>s that end in the
  \<^verbatim>\<open>QR code already used recently\<close> response.
\<close>

definition replay_blocked :: "server_state \<Rightarrow> bool \<Rightarrow> string \<Rightarrow> int \<Rightarrow> int \<Rightarrow> bool" where
  "replay_blocked st confirm_checkout emp_id time_slot current_time =
     (if \<not> confirm_checkout \<and> recent_qr_usage st emp_id \<noteq> None then
        (case the (recent_qr_usage st emp_id) time_slot of
           Some last_used \<Rightarrow> current_time - last_used < QR_REUSE_WINDOW
         | None \<Rightarrow> False)
      else False)"

text \<open>
  \<^verbatim>\<open>api_attendance\<close> for a POST request with body \<open>data\<close>; \<open>server_public_key_b58\<close> is the
  module's global of that name.
\<close>

definition api_attendance ::
  "platform \<Rightarrow> string \<Rightarrow> server_state \<Rightarrow> att_request \<Rightarrow> clock \<Rightarrow> server_state \<times> response" where
  "api_attendance P server_public_key_b58 st data clk =
     (let server_qr = req_server_qr data;
          employee_public_key = strip (get_str (req_public_key data));
          employee_signature = get_str (req_employee_signature data)
      in if employee_public_key = [] \<or> employee_signature = [] \<or> server_qr = None then
           (st, failure ''Missing required data'')
         else
           case find_employee (employees_file st) employee_public_key of
             None \<Rightarrow> (st, failure ''Employee not registered or invalid key'')
           | Some (emp_id, employee) \<Rightarrow>
               (let qr_message = get_str (sq_message (the server_qr));
                    qr_signature = get_str (sq_signature (the server_qr));
                    qr_timestamp = (case sq_timestamp (the server_qr) of None \<Rightarrow> 0 | Some n \<Rightarrow> n);
                    qr_server_key = get_str (sq_server_public_key (the server_qr))
                in if qr_server_key \<noteq> server_public_key_b58 then
                     (st, failure ''Invalid QR code - wrong server'')
                   else if \<not> verify_signature P server_public_key_b58 qr_message qr_signature then
                     (st, failure ''Invalid QR code signature'')
                   else
                     let current_time = py_int (time_current clk);
                         time_diff = current_time - qr_timestamp
                     in if time_diff > QR_GRACE_PERIOD \<or> time_diff < - QR_GRACE_PERIOD then
                          (st, failure (''QR code expired (age: '' @ str_int time_diff @ ''s)''))
                        else
                          let time_slot = get_time_slot (time_slot_read clk) in
                          if replay_blocked st (req_confirm_checkout data) emp_id time_slot
                               current_time then
                            (st, failure ''QR code already used recently'')
                          else if \<not> verify_signature P employee_public_key qr_message
                                      employee_signature then
                            (st, failure ''Invalid employee signature'')
                          else
                            mark_attendance st emp_id employee (req_confirm_checkout data)
                              qr_timestamp clk))"

section \<open>Runs of the server\<close>

text \<open>
  The server starts with no files and an empty \<^verbatim>\<open>recent_qr_usage\<close>, and handles one request
  after the other; the requests that write are the registrations and the attendance POSTs.
\<close>

datatype event = Register reg_request string | Attend att_request clock

fun step :: "platform \<Rightarrow> string \<Rightarrow> server_state \<Rightarrow> event \<Rightarrow> server_state" where
  "step P spk st (Register data now_iso) = fst (api_register P st data now_iso)"
| "step P spk st (Attend data clk) = fst (api_attendance P spk st data clk)"

definition run :: "platform \<Rightarrow> string \<Rightarrow> event list \<Rightarrow> server_state" where
  "run P spk evs = foldl (step P spk) initial_state evs"

section \<open>Named conditions of the attendance handler\<close>

text \<open>
  \<^verbatim>\<open>server_qr.get("timestamp", 0)\<close>, as \<^verbatim>\<open>api_attendance\<close> reads it.
\<close>

definition qr_timestamp_of :: "server_qr \<Rightarrow> int" where
  "qr_timestamp_of q = (case sq_timestamp q of None \<Rightarrow> 0 | Some n \<Rightarrow> n)"

text \<open>
  The conditions under which a request gets past the first four tests of
  \<^verbatim>\<open>api_attendance\<close>: the required data is there, the public key belongs to the employee
  \<open>emp_id\<close>, the QR code names this server, and the server's signature on it verifies.
\<close>

definition challenge_accepted ::
  "platform \<Rightarrow> string \<Rightarrow> server_state \<Rightarrow> att_request \<Rightarrow> string \<Rightarrow> employee \<Rightarrow> server_qr \<Rightarrow> bool" where
  "challenge_accepted P spk st data emp_id employee q =
     (strip (get_str (req_public_key data)) \<noteq> [] \<and>
      get_str (req_employee_signature data) \<noteq> [] \<and>
      req_server_qr data = Some q \<and>
      find_employee (employees_file st) (strip (get_str (req_public_key data))) =
        Some (emp_id, employee) \<and>
      get_str (sq_server_public_key q) = spk \<and>
      verify_signature P spk (get_str (sq_message q)) (get_str (sq_signature q)))"

text \<open>
  The last test: the employee's signature on the QR message verifies.
\<close>

definition holder_signature_valid :: "platform \<Rightarrow> att_request \<Rightarrow> server_qr \<Rightarrow> bool" where
  "holder_signature_valid P data q =
     verify_signature P (strip (get_str (req_public_key data))) (get_str (sq_message q))
       (get_str (req_employee_signature data))"

text \<open>
  All tests pass: the ones above, the timestamp within the grace period, and the replay test
  not blocking.
\<close>

definition passes_verification ::
  "platform \<Rightarrow> string \<Rightarrow> server_state \<Rightarrow> att_request \<Rightarrow> clock \<Rightarrow> string \<Rightarrow> employee \<Rightarrow> server_qr \<Rightarrow> bool" where
  "passes_verification P spk st data clk emp_id employee q =
     (challenge_accepted P spk st data emp_id employee q \<and>
      \<bar>py_int (time_current clk) - qr_timestamp_of q\<bar> \<le> QR_GRACE_PERIOD \<and>
      \<not> replay_blocked st (req_confirm_checkout data) emp_id (get_time_slot (time_slot_read clk))
          (py_int (time_current clk)) \<and>
      holder_signature_valid P data q)"

text \<open>
  The response to an expired QR code, with the age that the message reports.
\<close>

definition expired_response :: "int \<Rightarrow> response" where
  "expired_response age = failure (''QR code expired (age: '' @ str_int age @ ''s)'')"

text \<open>
  A field of a registration request that is absent or holds only whitespace.
\<close>

definition blank :: "string option \<Rightarrow> bool" where
  "blank v = (case v of None \<Rightarrow> True | Some s \<Rightarrow> list_all is_space s)"

text \<open>
  The test that answers \<^verbatim>\<open>Missing required data\<close>, and the QR dictionary of a request
  (absent or empty, every \<^verbatim>\<open>get\<close> returns its default).
\<close>

definition missing_required_data :: "att_request \<Rightarrow> bool" where
  "missing_required_data data =
     (strip (get_str (req_public_key data)) = [] \<or> get_str (req_employee_signature data) = [] \<or>
      req_server_qr data = None)"

definition qr_of :: "att_request \<Rightarrow> server_qr" where
  "qr_of data = (case req_server_qr data of
                   None \<Rightarrow> \<lparr>sq_message = None, sq_signature = None, sq_timestamp = None,
                             sq_server_public_key = None\<rparr>
                 | Some q \<Rightarrow> q)"

section \<open>The verification pipeline as the specification words it\<close>

text \<open>
  The specification describes the verification as a list of steps, tried in order, each with
  its reason; the first failing step decides the response and the ledger is only touched
  when no step fails. \<open>spec_checks_after_identity\<close> lists the steps that follow the
  resolution of the identity, each as a pair of "this step fails" and its reason;
  \<open>spec_pipeline_outcome\<close> is the response the specification prescribes. Both follow the
  specification's words and are compared with \<^verbatim>\<open>api_attendance\<close> below.
\<close>

definition spec_checks_after_identity ::
  "platform \<Rightarrow> string \<Rightarrow> server_state \<Rightarrow> att_request \<Rightarrow> clock \<Rightarrow> string \<Rightarrow> (bool \<times> string) list" where
  "spec_checks_after_identity P spk st data clk emp_id =
     (let q = qr_of data;
          now = py_int (time_current clk);
          age = now - qr_timestamp_of q
      in [(get_str (sq_server_public_key q) \<noteq> spk, ''Invalid QR code - wrong server''),
          (\<not> verify_signature P spk (get_str (sq_message q)) (get_str (sq_signature q)),
           ''Invalid QR code signature''),
          (age > QR_GRACE_PERIOD \<or> age < - QR_GRACE_PERIOD,
           ''QR code expired (age: '' @ str_int age @ ''s)''),
          (replay_blocked st (req_confirm_checkout data) emp_id
             (get_time_slot (time_slot_read clk)) now,
           ''QR code already used recently''),
          (\<not> holder_signature_valid P data q, ''Invalid employee signature'')])"

fun first_failure :: "(bool \<times> string) list \<Rightarrow> string option" where
  "first_failure [] = None"
| "first_failure ((failed, reason) # steps) =
     (if failed then Some reason else first_failure steps)"

definition spec_pipeline_outcome ::
  "platform \<Rightarrow> string \<Rightarrow> server_state \<Rightarrow> att_request \<Rightarrow> clock \<Rightarrow> server_state \<times> response" where
  "spec_pipeline_outcome P spk st data clk =
     (case find_employee (employees_file st) (strip (get_str (req_public_key data))) of
        None \<Rightarrow> (st, failure ''Employee not registered or invalid key'')
      | Some (emp_id, employee) \<Rightarrow>
          (case first_failure (spec_checks_after_identity P spk st data clk emp_id) of
             Some reason \<Rightarrow> (st, failure reason)
           | None \<Rightarrow> mark_attendance st emp_id employee (req_confirm_checkout data)
                       (qr_timestamp_of (qr_of data)) clk))"

section \<open>The ledger\<close>

text \<open>
  A record belongs to an employee and a date; the ledger is well formed when no two records
  share both. \<open>checked_out\<close> is the update the check-out branch of \<^verbatim>\<open>api_attendance\<close>
  applies to the record it found.
\<close>

definition record_key :: "attendance_record \<Rightarrow> string \<times> string" where
  "record_key r = (rec_emp_id r, rec_date r)"

definition one_record_per_day :: "attendance_record list \<Rightarrow> bool" where
  "one_record_per_day attendance = distinct (map record_key attendance)"

definition checked_out :: "attendance_record \<Rightarrow> clock \<Rightarrow> attendance_record" where
  "checked_out r clk = r\<lparr>rec_out_time := Some (now_time clk),
                          rec_out_timestamp := Some (now_isoformat clk),
                          rec_status := ''Present''\<rparr>"

section \<open>A sample deployment\<close>

text \<open>
  A stand-in for the two libraries, on which the handlers can be run: base 58 is the
  identity on strings without an underscore, a key pair has equal seed and public key, and
  the signature of a message is the key followed by the message. The scenario is the one of
  the specification: the employee \<^verbatim>\<open>E1\<close> registers, the server issues the QR code of slot
  1000, and the employee presents it at 1005, 1008, 1009 (confirming) and 1012.
\<close>

definition demo_key_S :: string where
  "demo_key_S = ''SSSSSSSSSSSSSSSSSSSSSSSSSSSSSSSS''"

definition demo_key_a :: string where
  "demo_key_a = ''aaaaaaaaaaaaaaaaaaaaaaaaaaaaaaaa''"

definition demo_key_b :: string where
  "demo_key_b = ''bbbbbbbbbbbbbbbbbbbbbbbbbbbbbbbb''"

definition demo_platform :: platform where
  "demo_platform =
     \<lparr>b58decode = (\<lambda>s. if CHR ''_'' \<in> set s then Inl ValueError else Inr s),
      b58encode = (\<lambda>b. b),
      ed25519_verify = (\<lambda>k s m. s = k @ m),
      ed25519_sign = (\<lambda>k m. k @ m),
      ed25519_generate = (\<lambda>n. if n = 0 then (demo_key_a, demo_key_a) else (demo_key_b, demo_key_b))\<rparr>"

definition demo_employee :: employee where
  "demo_employee = \<lparr>emp_name = ''Ada'', emp_email = [], emp_department = [],
                     emp_public_key = demo_key_a, emp_registered_at = ''2024-01-01T08:00:00''\<rparr>"

definition demo_register :: reg_request where
  "demo_register = \<lparr>reg_emp_id = Some '' E1 '', reg_name = Some ''Ada'', reg_email = None,
                     reg_department = None\<rparr>"

definition demo_registered :: server_state where
  "demo_registered = fst (api_register demo_platform initial_state demo_register ''2024-01-01T08:00:00'')"

definition scan :: "qr_data \<Rightarrow> server_qr" where
  "scan d = \<lparr>sq_message = Some (qd_message d), sq_signature = Some (qd_signature d),
             sq_timestamp = Some (qd_timestamp d),
             sq_server_public_key = Some (qd_server_public_key d)\<rparr>"

definition demo_qr :: server_qr where
  "demo_qr = scan (generate_qr_data demo_platform demo_key_S demo_key_S 1000)"

definition demo_request :: "bool \<Rightarrow> att_request" where
  "demo_request confirm =
     \<lparr>req_server_qr = Some demo_qr, req_public_key = Some demo_key_a,
      req_employee_signature = Some (sign_message demo_platform demo_key_a (get_str (sq_message demo_qr))),
      req_confirm_checkout = confirm\<rparr>"

definition demo_clock :: "real \<Rightarrow> string \<Rightarrow> clock" where
  "demo_clock t hms = \<lparr>time_current = t, time_slot_read = t, now_date = ''2024-01-01'',
                       now_time = hms, now_isoformat = ''2024-01-01T'' @ hms\<rparr>"

definition demo_used :: server_state where
  "demo_used = demo_registered\<lparr>recent_qr_usage := Map.empty(''E1'' \<mapsto> Map.empty(1000 \<mapsto> 1004))\<rparr>"

definition demo_unsigned :: att_request where
  "demo_unsigned = \<lparr>req_server_qr = Some demo_qr, req_public_key = Some demo_key_b,
                     req_employee_signature = None, req_confirm_checkout = False\<rparr>"

definition demo_record :: attendance_record where
  "demo_record = \<lparr>rec_emp_id = ''E1'', rec_employee_name = ''Ada'', rec_date = ''2024-01-01'',
                   rec_in_time = ''09:00:05'', rec_in_timestamp = ''2024-01-01T09:00:05'',
                   rec_out_time = None, rec_out_timestamp = None, rec_status = ''Present'',
                   rec_qr_timestamp = 1000, rec_verified = True\<rparr>"

definition demo_step1 :: "server_state \<times> response" where
  "demo_step1 = api_attendance demo_platform demo_key_S demo_registered (demo_request False)
                  (demo_clock 1005 ''09:00:05'')"

definition demo_step2 :: "server_state \<times> response" where
  "demo_step2 = api_attendance demo_platform demo_key_S (fst demo_step1) (demo_request False)
                  (demo_clock 1008 ''09:00:08'')"

definition demo_step3 :: "server_state \<times> response" where
  "demo_step3 = api_attendance demo_platform demo_key_S (fst demo_step2) (demo_request True)
                  (demo_clock 1009 ''09:00:09'')"

definition demo_step4 :: "server_state \<times> response" where
  "demo_step4 = api_attendance demo_platform demo_key_S (fst demo_step3) (demo_request False)
                  (demo_clock 1012 ''09:00:12'')"

section \<open>Properties of the helper functions\<close>

lemma get_time_slot_floor: "get_time_slot t = \<lfloor>t / 10\<rfloor> * 10"
  by (simp add: get_time_slot_def py_floordiv_def py_int_def INTERVAL_def)

lemma find_record_SomeD:
  "find_record xs e d = Some i \<Longrightarrow>
     i < length xs \<and> rec_emp_id (xs ! i) = e \<and> rec_date (xs ! i) = d"
  by (induction xs arbitrary: i) (auto split: if_splits)

lemma find_record_append_None:
  "find_record xs e d = None \<Longrightarrow>
   find_record (xs @ [r]) e d =
     (if rec_emp_id r = e \<and> rec_date r = d then Some (length xs) else None)"
  by (induction xs) (auto split: if_splits)

lemma find_record_None_key:
  "find_record xs e d = None \<longleftrightarrow> (e, d) \<notin> set (map record_key xs)"
  by (induction xs) (auto simp: record_key_def)

lemma strip_Nil_iff: "strip s = [] \<longleftrightarrow> list_all is_space s"
proof
  assume "strip s = []"
  then have all: "\<forall>c \<in> set (dropWhile is_space s). is_space c"
    by (simp add: strip_def dropWhile_eq_Nil_conv)
  show "list_all is_space s"
  proof (cases "dropWhile is_space s")
    case Nil
    then show ?thesis by (simp add: list_all_iff)
  next
    case (Cons c cs)
    then have "\<not> is_space (hd (dropWhile is_space s))"
      using hd_dropWhile [of is_space s] by simp
    with all Cons show ?thesis by simp
  qed
next
  assume "list_all is_space s"
  then have e: "dropWhile is_space s = []"
    by (simp add: list_all_iff)
  show "strip s = []" unfolding strip_def e by simp
qed

lemma strip_get_str_blank: "strip (get_str v) = [] \<longleftrightarrow> blank v"
  by (cases v) (simp_all add: get_str_def blank_def strip_Nil_iff)

lemma replay_not_blocked_empty: "recent_qr_usage st = Map.empty \<Longrightarrow> \<not> replay_blocked st c emp_id slot t"
  by (simp add: replay_blocked_def)

section \<open>The branches of the attendance handler\<close>

lemma mark_attendance_check_in:
  assumes "find_record (attendance_file st) emp_id (now_date clk) = None"
  shows "mark_attendance st emp_id employee c ts clk =
     (st\<lparr>attendance_file := attendance_file st @
          [\<lparr>rec_emp_id = emp_id, rec_employee_name = emp_name employee, rec_date = now_date clk,
            rec_in_time = now_time clk, rec_in_timestamp = now_isoformat clk,
            rec_out_time = None, rec_out_timestamp = None, rec_status = ''Present'',
            rec_qr_timestamp = ts, rec_verified = True\<rparr>]\<rparr>,
      \<lparr>resp_success = True, resp_message = ''Check-in successful'',
       resp_employee_name = Some (emp_name employee), resp_action = Some ''check-in'',
       resp_in_time = Some (now_time clk), resp_out_time = None,
       resp_status = Some ''Present''\<rparr>)"
  using assms by (simp add: mark_attendance_def Let_def)

lemma mark_attendance_pending:
  assumes "find_record (attendance_file st) emp_id (now_date clk) = Some i"
    and "rec_out_time (attendance_file st ! i) = None"
    and "\<not> c"
  shows "mark_attendance st emp_id employee c ts clk =
     (st,
      \<lparr>resp_success = False, resp_message = ''Confirm check-out'',
       resp_employee_name = Some (emp_name employee), resp_action = None,
       resp_in_time = Some (rec_in_time (attendance_file st ! i)),
       resp_out_time = Some (now_time clk), resp_status = Some ''Pending Check-out''\<rparr>)"
  using assms by (simp add: mark_attendance_def Let_def)

lemma mark_attendance_check_out:
  assumes "find_record (attendance_file st) emp_id (now_date clk) = Some i"
    and "rec_out_time (attendance_file st ! i) = None"
    and "c"
  shows "mark_attendance st emp_id employee c ts clk =
     (st\<lparr>attendance_file := (attendance_file st)
          [i := (attendance_file st ! i)
                  \<lparr>rec_out_time := Some (now_time clk),
                   rec_out_timestamp := Some (now_isoformat clk),
                   rec_status := ''Present''\<rparr>]\<rparr>,
      \<lparr>resp_success = True, resp_message = ''Check-out successful'',
       resp_employee_name = Some (emp_name employee), resp_action = Some ''check-out'',
       resp_in_time = Some (rec_in_time (attendance_file st ! i)),
       resp_out_time = Some (now_time clk), resp_status = Some ''Present''\<rparr>)"
  using assms by (simp add: mark_attendance_def Let_def)

lemma mark_attendance_already:
  assumes "find_record (attendance_file st) emp_id (now_date clk) = Some i"
    and "rec_out_time (attendance_file st ! i) = Some t"
  shows "mark_attendance st emp_id employee c ts clk =
     (st,
      \<lparr>resp_success = False, resp_message = ''Already checked out today'',
       resp_employee_name = Some (emp_name employee), resp_action = None,
       resp_in_time = Some (rec_in_time (attendance_file st ! i)),
       resp_out_time = Some t, resp_status = Some ''Already Present''\<rparr>)"
  using assms by (simp add: mark_attendance_def Let_def)

lemma mark_attendance_message:
  "resp_message (snd (mark_attendance st e emp c ts clk)) \<in>
     {''Check-out successful'', ''Confirm check-out'', ''Already checked out today'', ''Check-in successful''}"
  by (simp add: mark_attendance_def Let_def split: option.splits)

lemma expired_not_marked:
  "mark_attendance st e emp c ts clk \<noteq> (st', expired_response age)"
proof
  assume "mark_attendance st e emp c ts clk = (st', expired_response age)"
  then have "resp_message (snd (mark_attendance st e emp c ts clk)) = ''QR code expired (age: '' @ str_int age @ ''s)''"
    by (simp add: expired_response_def failure_def)
  with mark_attendance_message [of st e emp c ts clk] show False by simp
qed

lemma mark_attendance_usage:
  "recent_qr_usage (fst (mark_attendance st e emp c ts clk)) = recent_qr_usage st"
  by (simp add: mark_attendance_def Let_def split: option.splits)

lemma api_attendance_usage:
  "recent_qr_usage (fst (api_attendance P spk st data clk)) = recent_qr_usage st"
  by (simp add: api_attendance_def Let_def mark_attendance_usage split: option.splits prod.splits)

lemma api_attendance_employees:
  "employees_file (fst (api_attendance P spk st data clk)) = employees_file st"
  by (simp add: api_attendance_def mark_attendance_def Let_def split: option.splits prod.splits)

lemma api_attendance_passes:
  "passes_verification P spk st data clk emp_id employee q \<Longrightarrow>
   api_attendance P spk st data clk =
     mark_attendance st emp_id employee (req_confirm_checkout data) (qr_timestamp_of q) clk"
  by (auto simp: passes_verification_def challenge_accepted_def holder_signature_valid_def
      qr_timestamp_of_def api_attendance_def Let_def QR_GRACE_PERIOD_def)

lemma api_attendance_accepted:
  "challenge_accepted P spk st data emp_id employee q \<Longrightarrow>
   api_attendance P spk st data clk =
     (let current_time = py_int (time_current clk);
          time_diff = current_time - qr_timestamp_of q
      in if time_diff > QR_GRACE_PERIOD \<or> time_diff < - QR_GRACE_PERIOD then
           (st, expired_response time_diff)
         else if replay_blocked st (req_confirm_checkout data) emp_id
                   (get_time_slot (time_slot_read clk)) current_time then
           (st, failure ''QR code already used recently'')
         else if \<not> holder_signature_valid P data q then
           (st, failure ''Invalid employee signature'')
         else mark_attendance st emp_id employee (req_confirm_checkout data) (qr_timestamp_of q) clk)"
  by (auto simp: challenge_accepted_def holder_signature_valid_def expired_response_def
      qr_timestamp_of_def api_attendance_def Let_def)

lemma api_attendance_cases:
  "(\<exists>m. api_attendance P spk st data clk = (st, failure m)) \<or>
   (\<exists>e emp ts. api_attendance P spk st data clk =
        mark_attendance st e emp (req_confirm_checkout data) ts clk)"
  by (simp add: api_attendance_def Let_def split: option.splits prod.splits) blast

lemma mark_attendance_cases:
  "(fst (mark_attendance st e emp c ts clk) = st \<and>
      resp_action (snd (mark_attendance st e emp c ts clk)) = None) \<or>
   (find_record (attendance_file st) e (now_date clk) = None \<and>
      (\<exists>r. attendance_file (fst (mark_attendance st e emp c ts clk)) = attendance_file st @ [r] \<and>
           record_key r = (e, now_date clk) \<and> rec_out_time r = None) \<and>
      resp_action (snd (mark_attendance st e emp c ts clk)) = Some ''check-in'') \<or>
   (\<exists>i. find_record (attendance_file st) e (now_date clk) = Some i \<and>
      rec_out_time (attendance_file st ! i) = None \<and> c \<and>
      attendance_file (fst (mark_attendance st e emp c ts clk)) =
        (attendance_file st)[i := checked_out (attendance_file st ! i) clk] \<and>
      resp_action (snd (mark_attendance st e emp c ts clk)) = Some ''check-out'')"
  by (simp add: mark_attendance_def Let_def record_key_def checked_out_def split: option.splits)

lemma api_attendance_effect:
  "(fst (api_attendance P spk st data clk) = st \<and>
      resp_action (snd (api_attendance P spk st data clk)) = None) \<or>
   (\<exists>e. find_record (attendance_file st) e (now_date clk) = None \<and>
      (\<exists>r. attendance_file (fst (api_attendance P spk st data clk)) = attendance_file st @ [r] \<and>
           record_key r = (e, now_date clk) \<and> rec_out_time r = None) \<and>
      resp_action (snd (api_attendance P spk st data clk)) = Some ''check-in'') \<or>
   (\<exists>e i. find_record (attendance_file st) e (now_date clk) = Some i \<and>
      rec_out_time (attendance_file st ! i) = None \<and> req_confirm_checkout data \<and>
      attendance_file (fst (api_attendance P spk st data clk)) =
        (attendance_file st)[i := checked_out (attendance_file st ! i) clk] \<and>
      resp_action (snd (api_attendance P spk st data clk)) = Some ''check-out'')"
proof -
  from api_attendance_cases [of P spk st data clk]
  show ?thesis
  proof
    assume "\<exists>m. api_attendance P spk st data clk = (st, failure m)"
    then show ?thesis by (auto simp: failure_def)
  next
    assume "\<exists>e emp ts. api_attendance P spk st data clk =
        mark_attendance st e emp (req_confirm_checkout data) ts clk"
    then obtain e emp ts where eq: "api_attendance P spk st data clk =
        mark_attendance st e emp (req_confirm_checkout data) ts clk" by blast
    from mark_attendance_cases [of st e emp "req_confirm_checkout data" ts clk]
    show ?thesis unfolding eq by blast
  qed
qed

lemma api_register_attendance:
  "attendance_file (fst (api_register P st data now_iso)) = attendance_file st"
  by (simp add: api_register_def Let_def split: prod.splits)

section \<open>The sample deployment, evaluated\<close>

lemma demo_registered_eq:
  "demo_registered = \<lparr>employees_file = [(''E1'', demo_employee)], attendance_file = [],
                       recent_qr_usage = Map.empty, keypairs_generated = 1\<rparr>"
  by (simp add: demo_registered_def api_register_def demo_register_def initial_state_def
      get_str_def strip_def is_space_def generate_ed25519_keypair_def demo_platform_def
      demo_employee_def Let_def)

lemma demo_qr_eq:
  "demo_qr = \<lparr>sq_message = Some (''attendance:1000:'' @ demo_key_S),
              sq_signature = Some (demo_key_S @ ''attendance:1000:'' @ demo_key_S),
              sq_timestamp = Some 1000, sq_server_public_key = Some demo_key_S\<rparr>"
  by (simp add: demo_qr_def scan_def generate_qr_data_def get_time_slot_def py_floordiv_def
      py_int_def INTERVAL_def str_int_def str_nat.simps digits10_def sign_message_def
      utf8_encode_def demo_platform_def demo_key_S_def Let_def)

lemma demo_accepted:
  "challenge_accepted demo_platform demo_key_S demo_registered (demo_request c) ''E1'' demo_employee demo_qr"
  unfolding challenge_accepted_def demo_registered_eq
  by (simp add: demo_qr_eq demo_request_def get_str_def verify_signature_def verify_signature_try_def
      from_public_bytes_def utf8_encode_def demo_platform_def demo_key_S_def demo_key_a_def
      strip_def is_space_def demo_employee_def sign_message_def Let_def)

lemma demo_holder:
  "holder_signature_valid demo_platform (demo_request c) demo_qr"
  unfolding holder_signature_valid_def
  by (simp add: demo_qr_eq demo_request_def get_str_def verify_signature_def verify_signature_try_def
      from_public_bytes_def utf8_encode_def demo_platform_def demo_key_S_def demo_key_a_def
      strip_def is_space_def sign_message_def Let_def)

lemma demo_passes:
  assumes emp: "employees_file st = employees_file demo_registered"
    and usage: "recent_qr_usage st = Map.empty"
    and t: "\<bar>py_int t - 1000\<bar> \<le> 30"
  shows "passes_verification demo_platform demo_key_S st (demo_request c) (demo_clock t hms)
           ''E1'' demo_employee demo_qr"
proof -
  have acc: "challenge_accepted demo_platform demo_key_S st (demo_request c) ''E1''
               demo_employee demo_qr"
    using demo_accepted [of c] by (simp add: challenge_accepted_def emp)
  have fresh: "\<bar>py_int (time_current (demo_clock t hms)) - qr_timestamp_of demo_qr\<bar>
                 \<le> QR_GRACE_PERIOD"
    using t by (simp add: demo_clock_def qr_timestamp_of_def demo_qr_eq QR_GRACE_PERIOD_def)
  from acc fresh demo_holder [of c] replay_not_blocked_empty [OF usage]
  show ?thesis by (simp add: passes_verification_def)
qed

lemma demo_attendance:
  assumes emp: "employees_file st = employees_file demo_registered"
    and usage: "recent_qr_usage st = Map.empty"
    and t: "\<bar>py_int t - 1000\<bar> \<le> 30"
  shows "api_attendance demo_platform demo_key_S st (demo_request c) (demo_clock t hms) =
           mark_attendance st ''E1'' demo_employee c 1000 (demo_clock t hms)"
  using api_attendance_passes [OF demo_passes [OF emp usage t, of c hms]]
  by (simp add: demo_request_def qr_timestamp_of_def demo_qr_eq)

lemma demo_step1_eq:
  "demo_step1 =
     (demo_registered\<lparr>attendance_file := [demo_record]\<rparr>,
      \<lparr>resp_success = True, resp_message = ''Check-in successful'',
       resp_employee_name = Some ''Ada'', resp_action = Some ''check-in'',
       resp_in_time = Some ''09:00:05'', resp_out_time = None,
       resp_status = Some ''Present''\<rparr>)"
proof -
  have t: "\<bar>py_int 1005 - 1000\<bar> \<le> 30" by (simp add: py_int_def)
  have norec: "find_record (attendance_file demo_registered) ''E1''
                 (now_date (demo_clock 1005 ''09:00:05'')) = None"
    by (simp add: demo_registered_eq)
  show ?thesis
    unfolding demo_step1_def
    apply (subst demo_attendance [OF refl _ t])
     apply (simp add: demo_registered_eq)
    apply (subst mark_attendance_check_in [OF norec])
    apply (simp add: demo_registered_eq demo_record_def demo_employee_def demo_clock_def)
    done
qed

lemma demo_step2_eq:
  "demo_step2 =
     (demo_registered\<lparr>attendance_file := [demo_record]\<rparr>,
      \<lparr>resp_success = False, resp_message = ''Confirm check-out'',
       resp_employee_name = Some ''Ada'', resp_action = None,
       resp_in_time = Some ''09:00:05'', resp_out_time = Some ''09:00:08'',
       resp_status = Some ''Pending Check-out''\<rparr>)"
proof -
  let ?s = "demo_registered\<lparr>attendance_file := [demo_record]\<rparr>"
  have t: "\<bar>py_int 1008 - 1000\<bar> \<le> 30" by (simp add: py_int_def)
  have emp: "employees_file ?s = employees_file demo_registered" by simp
  have usage: "recent_qr_usage ?s = Map.empty" by (simp add: demo_registered_eq)
  have f: "find_record (attendance_file ?s) ''E1'' (now_date (demo_clock 1008 ''09:00:08'')) = Some 0"
    by (simp add: demo_record_def demo_clock_def)
  have o: "rec_out_time (attendance_file ?s ! 0) = None"
    by (simp add: demo_record_def)
  show ?thesis
    unfolding demo_step2_def demo_step1_eq fst_conv
    apply (subst demo_attendance [OF emp usage t])
    apply (subst mark_attendance_pending [OF f o])
     apply simp
    apply (simp add: demo_record_def demo_employee_def demo_clock_def)
    done
qed

lemma demo_step3_eq:
  "demo_step3 =
     (demo_registered\<lparr>attendance_file :=
        [demo_record\<lparr>rec_out_time := Some ''09:00:09'',
                      rec_out_timestamp := Some ''2024-01-01T09:00:09''\<rparr>]\<rparr>,
      \<lparr>resp_success = True, resp_message = ''Check-out successful'',
       resp_employee_name = Some ''Ada'', resp_action = Some ''check-out'',
       resp_in_time = Some ''09:00:05'', resp_out_time = Some ''09:00:09'',
       resp_status = Some ''Present''\<rparr>)"
proof -
  let ?s = "demo_registered\<lparr>attendance_file := [demo_record]\<rparr>"
  have t: "\<bar>py_int 1009 - 1000\<bar> \<le> 30" by (simp add: py_int_def)
  have emp: "employees_file ?s = employees_file demo_registered" by simp
  have usage: "recent_qr_usage ?s = Map.empty" by (simp add: demo_registered_eq)
  have f: "find_record (attendance_file ?s) ''E1'' (now_date (demo_clock 1009 ''09:00:09'')) = Some 0"
    by (simp add: demo_record_def demo_clock_def)
  have o: "rec_out_time (attendance_file ?s ! 0) = None"
    by (simp add: demo_record_def)
  show ?thesis
    unfolding demo_step3_def demo_step2_eq fst_conv
    apply (subst demo_attendance [OF emp usage t])
    apply (subst mark_attendance_check_out [OF f o])
     apply simp
    apply (simp add: demo_record_def demo_employee_def demo_clock_def)
    done
qed

lemma demo_step4_eq:
  "demo_step4 =
     (fst demo_step3,
      \<lparr>resp_success = False, resp_message = ''Already checked out today'',
       resp_employee_name = Some ''Ada'', resp_action = None,
       resp_in_time = Some ''09:00:05'', resp_out_time = Some ''09:00:09'',
       resp_status = Some ''Already Present''\<rparr>)"
proof -
  let ?s = "demo_registered\<lparr>attendance_file :=
        [demo_record\<lparr>rec_out_time := Some ''09:00:09'',
                      rec_out_timestamp := Some ''2024-01-01T09:00:09''\<rparr>]\<rparr>"
  have t: "\<bar>py_int 1012 - 1000\<bar> \<le> 30" by (simp add: py_int_def)
  have emp: "employees_file ?s = employees_file demo_registered" by simp
  have usage: "recent_qr_usage ?s = Map.empty" by (simp add: demo_registered_eq)
  have f: "find_record (attendance_file ?s) ''E1'' (now_date (demo_clock 1012 ''09:00:12'')) = Some 0"
    by (simp add: demo_record_def demo_clock_def)
  have o: "rec_out_time (attendance_file ?s ! 0) = Some ''09:00:09''"
    by (simp add: demo_record_def)
  show ?thesis
    unfolding demo_step4_def demo_step3_eq fst_conv
    apply (subst demo_attendance [OF emp usage t])
    apply (subst mark_attendance_already [OF f o])
    apply (simp add: demo_record_def demo_employee_def demo_clock_def)
    done
qed

lemma demo_used_accepted:
  "challenge_accepted demo_platform demo_key_S demo_used (demo_request c) ''E1'' demo_employee demo_qr"
  using demo_accepted [of c] by (simp add: challenge_accepted_def demo_used_def)

lemma demo_used_blocked:
  "replay_blocked demo_used False ''E1'' (get_time_slot 1005) 1005"
  by (simp add: replay_blocked_def demo_used_def get_time_slot_def py_floordiv_def py_int_def
        INTERVAL_def QR_REUSE_WINDOW_def)

lemma demo_used_check_in:
  "api_attendance demo_platform demo_key_S demo_used (demo_request True)
     (demo_clock 1005 ''09:00:05'') =
   mark_attendance demo_used ''E1'' demo_employee True 1000 (demo_clock 1005 ''09:00:05'')"
proof -
  have fresh: "\<bar>py_int (time_current (demo_clock 1005 ''09:00:05'')) - qr_timestamp_of demo_qr\<bar>
                 \<le> QR_GRACE_PERIOD"
    by (simp add: demo_clock_def py_int_def qr_timestamp_of_def demo_qr_eq QR_GRACE_PERIOD_def)
  have "passes_verification demo_platform demo_key_S demo_used (demo_request True)
          (demo_clock 1005 ''09:00:05'') ''E1'' demo_employee demo_qr"
    using demo_used_accepted [of True] fresh demo_holder [of True]
    by (simp add: passes_verification_def demo_request_def replay_blocked_def)
  from api_attendance_passes [OF this] show ?thesis
    by (simp add: demo_request_def qr_timestamp_of_def demo_qr_eq)
qed

section \<open>Replay protection\<close>

text \<open>
  No branch of \<^verbatim>\<open>api_attendance\<close> reaches the statements that record the use of a QR
  code, so the replay table stays empty in every run and the replay response is never given.
\<close>

lemma foldl_step_usage:
  "recent_qr_usage (foldl (step P spk) st evs) = recent_qr_usage st"
proof (induction evs arbitrary: st)
  case Nil
  then show ?case by simp
next
  case (Cons ev evs)
  have "recent_qr_usage (step P spk st ev) = recent_qr_usage st"
    by (cases ev) (simp_all add: api_attendance_usage api_register_def Let_def split: prod.splits)
  with Cons show ?case by simp
qed

lemma replay_table_never_written: "recent_qr_usage (run P spk evs) = Map.empty"
  unfolding run_def foldl_step_usage by (simp add: initial_state_def)

lemma already_used_unreachable:
  "resp_message (snd (api_attendance P spk (run P spk evs) data clk)) \<noteq>
     ''QR code already used recently''"
proof -
  have nb: "\<And>c e s t. \<not> replay_blocked (run P spk evs) c e s t"
    by (rule replay_not_blocked_empty) (rule replay_table_never_written)
  have m: "\<And>e emp c ts. resp_message (snd (mark_attendance (run P spk evs) e emp c ts clk)) \<noteq>
     ''QR code already used recently''"
  proof -
    fix e emp c ts
    from mark_attendance_message [of "run P spk evs" e emp c ts clk]
    show "resp_message (snd (mark_attendance (run P spk evs) e emp c ts clk)) \<noteq>
     ''QR code already used recently''" by auto
  qed
  show ?thesis
    by (simp add: api_attendance_def Let_def nb m failure_def split: option.splits prod.splits)
qed

text \<open>
  Claim C1 says that the same challenge, presented twice by the same identity within
  \<^verbatim>\<open>QR_REUSE_WINDOW\<close> and without \<^verbatim>\<open>confirm_checkout\<close>, succeeds the first time and is
  answered \<^verbatim>\<open>QR code already used recently\<close> the second time. The code does not do that: in
  the sample deployment the presentations at 1005 and 1008 fall into the same slot 1000, the
  first one checks the employee in and leaves the replay table empty, and the second one is
  answered \<^verbatim>\<open>Confirm check-out\<close>.
\<close>

theorem same_slot_resubmission_not_rejected:
  "get_time_slot 1005 = 1000 \<and> get_time_slot 1008 = 1000 \<and>
   (1008::int) - 1005 < QR_REUSE_WINDOW \<and>
   \<not> req_confirm_checkout (demo_request False) \<and>
   resp_success (snd demo_step1) \<and> resp_message (snd demo_step1) = ''Check-in successful'' \<and>
   recent_qr_usage (fst demo_step1) = Map.empty \<and>
   resp_message (snd demo_step2) = ''Confirm check-out'' \<and>
   resp_message (snd demo_step2) \<noteq> ''QR code already used recently''"
  by (simp add: demo_step1_eq demo_step2_eq demo_registered_eq demo_request_def
      get_time_slot_def py_floordiv_def py_int_def INTERVAL_def QR_REUSE_WINDOW_def)

section \<open>The check-in and check-out state machine\<close>

text \<open>
  Claim C2. For one identity on one calendar day, four submissions that each pass the
  verification drive the state machine: the first one is answered with the action
  \<^verbatim>\<open>check-in\<close> and appends a record without out-time; the second one, without
  \<^verbatim>\<open>confirm_checkout\<close>, is answered \<^verbatim>\<open>Confirm check-out\<close> and leaves the state as it is; the
  third one, with \<^verbatim>\<open>confirm_checkout\<close>, is answered with the action \<^verbatim>\<open>check-out\<close> and
  sets the out-time of the record; the fourth one is answered
  \<^verbatim>\<open>Already checked out today\<close> and leaves the state as it is.
\<close>

theorem daily_state_machine:
  assumes p1: "passes_verification P spk s0 d1 c1 emp_id employee q1"
    and p2: "passes_verification P spk s1 d2 c2 emp_id employee q2"
    and p3: "passes_verification P spk s2 d3 c3 emp_id employee q3"
    and p4: "passes_verification P spk s3 d4 c4 emp_id employee q4"
    and t1: "api_attendance P spk s0 d1 c1 = (s1, r1)"
    and t2: "api_attendance P spk s1 d2 c2 = (s2, r2)"
    and t3: "api_attendance P spk s2 d3 c3 = (s3, r3)"
    and t4: "api_attendance P spk s3 d4 c4 = (s4, r4)"
    and day: "now_date c1 = day" "now_date c2 = day" "now_date c3 = day" "now_date c4 = day"
    and first: "find_record (attendance_file s0) emp_id day = None"
    and no_confirm: "\<not> req_confirm_checkout d2"
    and confirm: "req_confirm_checkout d3"
  shows "resp_success r1 \<and> resp_action r1 = Some ''check-in'' \<and>
         attendance_file s1 = attendance_file s0 @
           [\<lparr>rec_emp_id = emp_id, rec_employee_name = emp_name employee, rec_date = day,
             rec_in_time = now_time c1, rec_in_timestamp = now_isoformat c1,
             rec_out_time = None, rec_out_timestamp = None, rec_status = ''Present'',
             rec_qr_timestamp = qr_timestamp_of q1, rec_verified = True\<rparr>] \<and>
         \<not> resp_success r2 \<and> resp_message r2 = ''Confirm check-out'' \<and>
         resp_status r2 = Some ''Pending Check-out'' \<and> s2 = s1 \<and>
         resp_success r3 \<and> resp_action r3 = Some ''check-out'' \<and>
         resp_out_time r3 = Some (now_time c3) \<and>
         attendance_file s3 = attendance_file s0 @
           [\<lparr>rec_emp_id = emp_id, rec_employee_name = emp_name employee, rec_date = day,
             rec_in_time = now_time c1, rec_in_timestamp = now_isoformat c1,
             rec_out_time = Some (now_time c3), rec_out_timestamp = Some (now_isoformat c3),
             rec_status = ''Present'', rec_qr_timestamp = qr_timestamp_of q1,
             rec_verified = True\<rparr>] \<and>
         \<not> resp_success r4 \<and> resp_message r4 = ''Already checked out today'' \<and> s4 = s3"
proof -
  let ?n = "length (attendance_file s0)"
  let ?rec = "\<lparr>rec_emp_id = emp_id, rec_employee_name = emp_name employee, rec_date = day,
             rec_in_time = now_time c1, rec_in_timestamp = now_isoformat c1,
             rec_out_time = None, rec_out_timestamp = None, rec_status = ''Present'',
             rec_qr_timestamp = qr_timestamp_of q1, rec_verified = True\<rparr>"
  have first1: "find_record (attendance_file s0) emp_id (now_date c1) = None"
    using first day by simp
  have e1: "(s1, r1) = mark_attendance s0 emp_id employee (req_confirm_checkout d1)
              (qr_timestamp_of q1) c1"
    using api_attendance_passes [OF p1] t1 by simp
  have s1: "s1 = s0\<lparr>attendance_file := attendance_file s0 @ [?rec]\<rparr>"
    and r1: "resp_success r1 \<and> resp_action r1 = Some ''check-in''"
    using e1 unfolding mark_attendance_check_in [OF first1] by (simp_all add: day)
  have att1: "attendance_file s1 = attendance_file s0 @ [?rec]"
    using s1 by simp
  have f2: "find_record (attendance_file s1) emp_id (now_date c2) = Some ?n"
    unfolding att1 using find_record_append_None [OF first, of ?rec] by (simp add: day)
  have o2: "rec_out_time (attendance_file s1 ! ?n) = None"
    unfolding att1 by simp
  have e2: "(s2, r2) = mark_attendance s1 emp_id employee (req_confirm_checkout d2)
              (qr_timestamp_of q2) c2"
    using api_attendance_passes [OF p2] t2 by simp
  have s2: "s2 = s1"
    and r2: "\<not> resp_success r2 \<and> resp_message r2 = ''Confirm check-out'' \<and>
             resp_status r2 = Some ''Pending Check-out''"
    using e2 unfolding mark_attendance_pending [OF f2 o2 no_confirm] by simp_all
  have f3: "find_record (attendance_file s2) emp_id (now_date c3) = Some ?n"
    using f2 by (simp add: s2 day)
  have o3: "rec_out_time (attendance_file s2 ! ?n) = None"
    using o2 by (simp add: s2)
  have e3: "(s3, r3) = mark_attendance s2 emp_id employee (req_confirm_checkout d3)
              (qr_timestamp_of q3) c3"
    using api_attendance_passes [OF p3] t3 by simp
  have s3: "attendance_file s3 = attendance_file s0 @
              [?rec\<lparr>rec_out_time := Some (now_time c3),
                     rec_out_timestamp := Some (now_isoformat c3)\<rparr>]"
    and r3: "resp_success r3 \<and> resp_action r3 = Some ''check-out'' \<and>
             resp_out_time r3 = Some (now_time c3)"
    using e3 unfolding mark_attendance_check_out [OF f3 o3 confirm]
    by (simp_all add: s2 att1)
  have f4: "find_record (attendance_file s3) emp_id (now_date c4) = Some ?n"
    unfolding s3
    using find_record_append_None [OF first,
        of "?rec\<lparr>rec_out_time := Some (now_time c3),
                  rec_out_timestamp := Some (now_isoformat c3)\<rparr>"]
    by (simp add: day)
  have o4: "rec_out_time (attendance_file s3 ! ?n) = Some (now_time c3)"
    unfolding s3 by simp
  have e4: "(s4, r4) = mark_attendance s3 emp_id employee (req_confirm_checkout d4)
              (qr_timestamp_of q4) c4"
    using api_attendance_passes [OF p4] t4 by simp
  have s4: "s4 = s3"
    and r4: "\<not> resp_success r4 \<and> resp_message r4 = ''Already checked out today''"
    using e4 unfolding mark_attendance_already [OF f4 o4] by simp_all
  from r1 att1 r2 s2 r3 s3 r4 s4 show ?thesis by simp
qed

theorem daily_state_machine_witness:
  "resp_success (snd demo_step1) \<and> resp_action (snd demo_step1) = Some ''check-in'' \<and>
   attendance_file (fst demo_step1) = [demo_record] \<and> rec_out_time demo_record = None \<and>
   \<not> resp_success (snd demo_step2) \<and> resp_message (snd demo_step2) = ''Confirm check-out'' \<and>
   fst demo_step2 = fst demo_step1 \<and>
   resp_success (snd demo_step3) \<and> resp_action (snd demo_step3) = Some ''check-out'' \<and>
   attendance_file (fst demo_step3) =
     [demo_record\<lparr>rec_out_time := Some ''09:00:09'',
                   rec_out_timestamp := Some ''2024-01-01T09:00:09''\<rparr>] \<and>
   \<not> resp_success (snd demo_step4) \<and>
   resp_message (snd demo_step4) = ''Already checked out today'' \<and>
   fst demo_step4 = fst demo_step3"
proof -
  have e: "\<And>st data clk. employees_file (fst (api_attendance demo_platform demo_key_S st data clk))
             = employees_file st"
    by (rule api_attendance_employees)
  have u: "\<And>st data clk. recent_qr_usage (fst (api_attendance demo_platform demo_key_S st data clk))
             = recent_qr_usage st"
    by (rule api_attendance_usage)
  have u0: "recent_qr_usage demo_registered = Map.empty"
    by (simp add: demo_registered_eq)
  have p1: "passes_verification demo_platform demo_key_S demo_registered (demo_request False)
              (demo_clock 1005 ''09:00:05'') ''E1'' demo_employee demo_qr"
    by (rule demo_passes) (simp_all add: u0 py_int_def)
  have p2: "passes_verification demo_platform demo_key_S (fst demo_step1) (demo_request False)
              (demo_clock 1008 ''09:00:08'') ''E1'' demo_employee demo_qr"
    by (rule demo_passes) (simp_all add: demo_step1_def e u u0 py_int_def)
  have p3: "passes_verification demo_platform demo_key_S (fst demo_step2) (demo_request True)
              (demo_clock 1009 ''09:00:09'') ''E1'' demo_employee demo_qr"
    by (rule demo_passes) (simp_all add: demo_step2_def demo_step1_def e u u0 py_int_def)
  have p4: "passes_verification demo_platform demo_key_S (fst demo_step3) (demo_request False)
              (demo_clock 1012 ''09:00:12'') ''E1'' demo_employee demo_qr"
    by (rule demo_passes)
       (simp_all add: demo_step3_def demo_step2_def demo_step1_def e u u0 py_int_def)
  have t1: "api_attendance demo_platform demo_key_S demo_registered (demo_request False)
              (demo_clock 1005 ''09:00:05'') = (fst demo_step1, snd demo_step1)"
    by (simp add: demo_step1_def)
  have t2: "api_attendance demo_platform demo_key_S (fst demo_step1) (demo_request False)
              (demo_clock 1008 ''09:00:08'') = (fst demo_step2, snd demo_step2)"
    by (simp add: demo_step2_def)
  have t3: "api_attendance demo_platform demo_key_S (fst demo_step2) (demo_request True)
              (demo_clock 1009 ''09:00:09'') = (fst demo_step3, snd demo_step3)"
    by (simp add: demo_step3_def)
  have t4: "api_attendance demo_platform demo_key_S (fst demo_step3) (demo_request False)
              (demo_clock 1012 ''09:00:12'') = (fst demo_step4, snd demo_step4)"
    by (simp add: demo_step4_def)
  have d: "now_date (demo_clock 1005 ''09:00:05'') = ''2024-01-01''"
      "now_date (demo_clock 1008 ''09:00:08'') = ''2024-01-01''"
      "now_date (demo_clock 1009 ''09:00:09'') = ''2024-01-01''"
      "now_date (demo_clock 1012 ''09:00:12'') = ''2024-01-01''"
    by (simp_all add: demo_clock_def)
  have first: "find_record (attendance_file demo_registered) ''E1'' ''2024-01-01'' = None"
    by (simp add: demo_registered_eq)
  have nc: "\<not> req_confirm_checkout (demo_request False)"
    and c: "req_confirm_checkout (demo_request True)"
    by (simp_all add: demo_request_def)
  from daily_state_machine [OF p1 p2 p3 p4 t1 t2 t3 t4 d first nc c]
  show ?thesis
    by (simp add: demo_record_def demo_employee_def demo_clock_def qr_timestamp_of_def
        demo_qr_eq demo_registered_eq)
qed

section \<open>Freshness of the challenge\<close>

text \<open>
  Claim C3. For a challenge with slot start \<open>S\<close> that reaches the timestamp test, presented
  when the handler reads the time \<open>now\<close> (in whole seconds), the response is the expiry
  failure exactly when \<open>|now - S| \<le> QR_GRACE_PERIOD\<close> does not hold; at
  \<open>now = S + QR_GRACE_PERIOD + 1\<close> the response is \<^verbatim>\<open>QR code expired (age: 31s)\<close>, which
  reports the observed age.
\<close>

theorem freshness_check:
  assumes acc: "challenge_accepted P spk st data emp_id employee q"
    and S: "qr_timestamp_of q = S"
    and now: "py_int (time_current clk) = now"
  shows "(api_attendance P spk st data clk = (st, expired_response (now - S)) \<longleftrightarrow>
            \<not> \<bar>now - S\<bar> \<le> QR_GRACE_PERIOD) \<and>
         (now = S + QR_GRACE_PERIOD + 1 \<longrightarrow>
            api_attendance P spk st data clk = (st, failure ''QR code expired (age: 31s)''))"
proof -
  have eq: "api_attendance P spk st data clk =
     (if now - S > QR_GRACE_PERIOD \<or> now - S < - QR_GRACE_PERIOD then
           (st, expired_response (now - S))
         else if replay_blocked st (req_confirm_checkout data) emp_id
                   (get_time_slot (time_slot_read clk)) now then
           (st, failure ''QR code already used recently'')
         else if \<not> holder_signature_valid P data q then
           (st, failure ''Invalid employee signature'')
         else mark_attendance st emp_id employee (req_confirm_checkout data) S clk)"
    using api_attendance_accepted [OF acc, of clk] by (simp add: Let_def S now)
  have a: "api_attendance P spk st data clk = (st, expired_response (now - S)) \<longleftrightarrow>
            \<not> \<bar>now - S\<bar> \<le> QR_GRACE_PERIOD"
  proof (cases "\<bar>now - S\<bar> \<le> QR_GRACE_PERIOD")
    case True
    then have fresh: "\<not> (now - S > QR_GRACE_PERIOD \<or> now - S < - QR_GRACE_PERIOD)" by linarith
    have "api_attendance P spk st data clk \<noteq> (st, expired_response (now - S))"
      unfolding eq using fresh expired_not_marked
      by (simp add: expired_response_def failure_def)
    with True show ?thesis by simp
  next
    case False
    then have "now - S > QR_GRACE_PERIOD \<or> now - S < - QR_GRACE_PERIOD" by linarith
    with False show ?thesis unfolding eq by simp
  qed
  have str31: "str_int 31 = ''31''"
    by (simp add: str_int_def str_nat.simps digits10_def)
  have b: "now = S + QR_GRACE_PERIOD + 1 \<longrightarrow>
            api_attendance P spk st data clk = (st, failure ''QR code expired (age: 31s)'')"
    unfolding eq by (simp add: QR_GRACE_PERIOD_def expired_response_def str31)
  from a b show ?thesis by blast
qed

theorem freshness_check_witness:
  "(api_attendance demo_platform demo_key_S demo_registered (demo_request False) (demo_clock 1031 ''09:00:00'')
      = (demo_registered, expired_response 31) \<longleftrightarrow> \<not> \<bar>(1031::int) - 1000\<bar> \<le> QR_GRACE_PERIOD) \<and>
   api_attendance demo_platform demo_key_S demo_registered (demo_request False) (demo_clock 1031 ''09:00:00'')
      = (demo_registered, failure ''QR code expired (age: 31s)'')"
proof -
  have S: "qr_timestamp_of demo_qr = 1000"
    by (simp add: qr_timestamp_of_def demo_qr_eq)
  have now: "py_int (time_current (demo_clock 1031 ''09:00:00'')) = 1031"
    by (simp add: demo_clock_def py_int_def)
  show ?thesis
    using freshness_check [OF demo_accepted S now, of False]
    by (simp add: QR_GRACE_PERIOD_def expired_response_def str_int_def str_nat.simps digits10_def)
qed

section \<open>Order of the verification steps\<close>

lemma api_attendance_pipeline:
  "api_attendance P spk st data clk =
     (if missing_required_data data then (st, failure ''Missing required data'')
      else spec_pipeline_outcome P spk st data clk)"
proof (cases "missing_required_data data")
  case True
  then show ?thesis
    by (simp add: api_attendance_def missing_required_data_def Let_def)
next
  case False
  then obtain q where q: "req_server_qr data = Some q"
    by (auto simp: missing_required_data_def)
  have nm: "\<not> (strip (get_str (req_public_key data)) = [] \<or>
               get_str (req_employee_signature data) = [] \<or> req_server_qr data = None)"
    using False by (simp add: missing_required_data_def)
  show ?thesis
  proof (cases "find_employee (employees_file st) (strip (get_str (req_public_key data)))")
    case None
    then show ?thesis
      using nm by (simp add: api_attendance_def spec_pipeline_outcome_def Let_def q False)
  next
    case (Some p)
    obtain emp_id employee where p: "p = (emp_id, employee)" by (cases p)
    show ?thesis
      using False nm Some
      unfolding p api_attendance_def spec_pipeline_outcome_def spec_checks_after_identity_def
      by (simp add: Let_def q qr_of_def qr_timestamp_of_def holder_signature_valid_def)
  qed
qed

lemma reasons_distinct:
  "distinct (''Missing required data'' # ''Employee not registered or invalid key'' #
             map snd (spec_checks_after_identity P spk st data clk emp_id))"
  by (simp add: spec_checks_after_identity_def Let_def)

lemma spec_pipeline_outcome_changes:
  assumes "attendance_file (fst (spec_pipeline_outcome P spk st data clk)) \<noteq> attendance_file st"
  shows "\<exists>emp_id employee.
           find_employee (employees_file st) (strip (get_str (req_public_key data))) =
             Some (emp_id, employee) \<and>
           first_failure (spec_checks_after_identity P spk st data clk emp_id) = None"
  using assms by (auto simp: spec_pipeline_outcome_def split: option.splits)

text \<open>
  Claim C4 says that every submission is answered by the first failing step of the list
  unknown identity, wrong server, invalid server signature, expired challenge, replay,
  invalid holder signature. A submission without holder signature whose public key is not
  registered contradicts it: the list prescribes the reason of the unknown identity, the
  handler answers \<^verbatim>\<open>Missing required data\<close>.
\<close>

theorem verification_pipeline_counterexample:
  "api_attendance demo_platform demo_key_S demo_registered demo_unsigned (demo_clock 1005 ''09:00:05'')
     = (demo_registered, failure ''Missing required data'') \<and>
   spec_pipeline_outcome demo_platform demo_key_S demo_registered demo_unsigned (demo_clock 1005 ''09:00:05'')
     = (demo_registered, failure ''Employee not registered or invalid key'') \<and>
   api_attendance demo_platform demo_key_S demo_registered demo_unsigned (demo_clock 1005 ''09:00:05'')
     \<noteq> spec_pipeline_outcome demo_platform demo_key_S demo_registered demo_unsigned (demo_clock 1005 ''09:00:05'')"
proof -
  have a: "api_attendance demo_platform demo_key_S demo_registered demo_unsigned
             (demo_clock 1005 ''09:00:05'') = (demo_registered, failure ''Missing required data'')"
    by (simp add: api_attendance_def demo_unsigned_def get_str_def Let_def)
  have b: "spec_pipeline_outcome demo_platform demo_key_S demo_registered demo_unsigned
             (demo_clock 1005 ''09:00:05'')
           = (demo_registered, failure ''Employee not registered or invalid key'')"
    by (simp add: spec_pipeline_outcome_def demo_unsigned_def get_str_def demo_registered_eq
        demo_key_b_def demo_key_a_def demo_employee_def strip_def is_space_def)
  show ?thesis unfolding a b by (simp add: failure_def)
qed

text \<open>
  Claim C4, amended. A submission that lacks the public key, the holder signature or the
  challenge is answered \<^verbatim>\<open>Missing required data\<close> before any other test. Every other
  submission is answered by the first failing step of the list, in the order unknown
  identity, wrong server, invalid server signature, expired challenge, replay, invalid
  holder signature; the reasons, the one for missing data included, are pairwise distinct;
  the replay step never fails when \<^verbatim>\<open>confirm_checkout\<close> is set; and the ledger changes only
  if no step fails.
\<close>

theorem verification_pipeline_order:
  "api_attendance P spk st data clk =
     (if missing_required_data data then (st, failure ''Missing required data'')
      else spec_pipeline_outcome P spk st data clk) \<and>
   distinct (''Missing required data'' # ''Employee not registered or invalid key'' #
             map snd (spec_checks_after_identity P spk st data clk emp_id)) \<and>
   (req_confirm_checkout data \<longrightarrow>
      \<not> fst (spec_checks_after_identity P spk st data clk emp_id ! 3)) \<and>
   (attendance_file (fst (api_attendance P spk st data clk)) \<noteq> attendance_file st \<longrightarrow>
      \<not> missing_required_data data \<and>
      (\<exists>e employee.
          find_employee (employees_file st) (strip (get_str (req_public_key data))) =
            Some (e, employee) \<and>
          first_failure (spec_checks_after_identity P spk st data clk e) = None))"
proof -
  have a: "api_attendance P spk st data clk =
     (if missing_required_data data then (st, failure ''Missing required data'')
      else spec_pipeline_outcome P spk st data clk)"
    by (rule api_attendance_pipeline)
  have c: "req_confirm_checkout data \<longrightarrow>
      \<not> fst (spec_checks_after_identity P spk st data clk emp_id ! 3)"
    by (simp add: spec_checks_after_identity_def Let_def replay_blocked_def)
  have d: "attendance_file (fst (api_attendance P spk st data clk)) \<noteq> attendance_file st \<longrightarrow>
      \<not> missing_required_data data \<and>
      (\<exists>e employee.
          find_employee (employees_file st) (strip (get_str (req_public_key data))) =
            Some (e, employee) \<and>
          first_failure (spec_checks_after_identity P spk st data clk e) = None)"
    unfolding a using spec_pipeline_outcome_changes [of P spk st data clk]
    by (cases "missing_required_data data") simp_all
  from a reasons_distinct [of P spk st data clk emp_id] c d show ?thesis by blast
qed

theorem verification_pipeline_order_witness:
  "req_confirm_checkout (demo_request True) \<and>
   attendance_file (fst (api_attendance demo_platform demo_key_S demo_used (demo_request True)
      (demo_clock 1005 ''09:00:05''))) \<noteq> attendance_file demo_used \<and>
   \<not> missing_required_data (demo_request True) \<and>
   \<not> fst (spec_checks_after_identity demo_platform demo_key_S demo_used (demo_request True)
            (demo_clock 1005 ''09:00:05'') ''E1'' ! 3) \<and>
   first_failure (spec_checks_after_identity demo_platform demo_key_S demo_used (demo_request True)
      (demo_clock 1005 ''09:00:05'') ''E1'') = None \<and>
   api_attendance demo_platform demo_key_S demo_used (demo_request True)
      (demo_clock 1005 ''09:00:05'') =
   spec_pipeline_outcome demo_platform demo_key_S demo_used (demo_request True)
      (demo_clock 1005 ''09:00:05'')"
proof -
  have c: "req_confirm_checkout (demo_request True)"
    by (simp add: demo_request_def)
  have norec: "find_record (attendance_file demo_used) ''E1''
                 (now_date (demo_clock 1005 ''09:00:05'')) = None"
    by (simp add: demo_used_def demo_registered_eq)
  have ch: "attendance_file (fst (api_attendance demo_platform demo_key_S demo_used
              (demo_request True) (demo_clock 1005 ''09:00:05''))) \<noteq> attendance_file demo_used"
    unfolding demo_used_check_in mark_attendance_check_in [OF norec] by simp
  have f: "find_employee (employees_file demo_used)
             (strip (get_str (req_public_key (demo_request True)))) = Some (''E1'', demo_employee)"
    using demo_used_accepted [of True] by (simp add: challenge_accepted_def)
  from verification_pipeline_order [of demo_platform demo_key_S demo_used "demo_request True"
      "demo_clock 1005 ''09:00:05''" "''E1''"] c ch f
  show ?thesis by auto
qed

section \<open>Signature verification\<close>

text \<open>
  Claim C5. For every public key, message and signature, \<^verbatim>\<open>verify_signature\<close> returns a
  boolean: it is \<^verbatim>\<open>True\<close> exactly when the key decodes to 32 bytes, the signature
  decodes, and the library accepts the signature for the encoded message. Whenever the body
  raises (a malformed base-58 string, a key of another length, a signature the library
  rejects) the result is \<^verbatim>\<open>False\<close>, and the body never returns \<^verbatim>\<open>False\<close> itself.
\<close>

theorem verify_signature_never_raises:
  "verify_signature P pk m s =
     (\<exists>kb sb. b58decode P pk = Inr kb \<and> length kb = 32 \<and> b58decode P s = Inr sb \<and>
              ed25519_verify P kb sb (utf8_encode m)) \<and>
   verify_signature P pk m s = (verify_signature_try P pk m s = Inr True) \<and>
   verify_signature_try P pk m s \<noteq> Inr False"
  by (auto simp: verify_signature_def verify_signature_try_def from_public_bytes_def Let_def
      split: sum.splits)

theorem verify_signature_never_raises_witness:
  "\<not> verify_signature demo_platform ''not_base58'' ''m'' (demo_key_S @ ''m'') \<and>
   \<not> verify_signature demo_platform ''short'' ''m'' (''short'' @ ''m'') \<and>
   \<not> verify_signature demo_platform demo_key_S ''m'' ''bad_signature'' \<and>
   \<not> verify_signature demo_platform demo_key_S ''m'' (demo_key_a @ ''m'') \<and>
   verify_signature demo_platform demo_key_S ''m'' (demo_key_S @ ''m'')"
  using verify_signature_never_raises [of demo_platform "''not_base58''" "''m''" "demo_key_S @ ''m''"]
    verify_signature_never_raises [of demo_platform "''short''" "''m''" "''short'' @ ''m''"]
    verify_signature_never_raises [of demo_platform demo_key_S "''m''" "''bad_signature''"]
    verify_signature_never_raises [of demo_platform demo_key_S "''m''" "demo_key_a @ ''m''"]
    verify_signature_never_raises [of demo_platform demo_key_S "''m''" "demo_key_S @ ''m''"]
  by (simp add: demo_platform_def demo_key_S_def demo_key_a_def utf8_encode_def)

section \<open>Challenge issuance\<close>

text \<open>
  Claim C6. For every issuance time \<open>t\<close>, the slot start of the issued challenge is
  \<open>floor (t / INTERVAL) * INTERVAL\<close> with \<open>INTERVAL = 10\<close>, and the signed message is exactly
  the string \<^verbatim>\<open>attendance:\<close>, the decimal slot start, a colon and the server's base-58
  public key; the signature is the server's signature of that string.
\<close>

theorem generate_qr_data_slot_and_message:
  "INTERVAL = 10 \<and>
   qd_timestamp (generate_qr_data P sk spk t) = \<lfloor>t / of_int INTERVAL\<rfloor> * INTERVAL \<and>
   qd_message (generate_qr_data P sk spk t) =
     ''attendance:'' @ str_int (\<lfloor>t / of_int INTERVAL\<rfloor> * INTERVAL) @ '':'' @ spk \<and>
   qd_signature (generate_qr_data P sk spk t) =
     sign_message P sk (qd_message (generate_qr_data P sk spk t)) \<and>
   qd_server_public_key (generate_qr_data P sk spk t) = spk"
  by (simp add: generate_qr_data_def Let_def get_time_slot_floor INTERVAL_def)

theorem generate_qr_data_slot_and_message_witness:
  "qd_timestamp (generate_qr_data demo_platform demo_key_S ''Spk'' (2011 / 2)) = 1000 \<and>
   qd_message (generate_qr_data demo_platform demo_key_S ''Spk'' (2011 / 2)) =
     ''attendance:1000:Spk''"
  using generate_qr_data_slot_and_message [of demo_platform demo_key_S "''Spk''" "2011 / 2"]
  by (simp add: INTERVAL_def str_int_def str_nat.simps digits10_def)

section \<open>Invariants of the ledger\<close>

lemma record_key_checked_out: "record_key (checked_out r clk) = record_key r"
  by (simp add: record_key_def checked_out_def)

lemma keys_update_checked_out:
  "i < length xs \<Longrightarrow> map record_key (xs[i := checked_out (xs ! i) clk]) = map record_key xs"
  by (simp add: map_update record_key_checked_out list_update_same_conv)

lemma api_attendance_invariant:
  assumes "one_record_per_day (attendance_file st)"
  shows "one_record_per_day (attendance_file (fst (api_attendance P spk st data clk)))"
  using api_attendance_effect [of P spk st data clk] assms
  by (auto simp: one_record_per_day_def find_record_None_key keys_update_checked_out
      dest: find_record_SomeD)

lemma step_invariant:
  "one_record_per_day (attendance_file st) \<Longrightarrow>
   one_record_per_day (attendance_file (step P spk st ev))"
  by (cases ev) (simp_all add: api_register_attendance api_attendance_invariant)

lemma foldl_step_invariant:
  "one_record_per_day (attendance_file st) \<Longrightarrow>
   one_record_per_day (attendance_file (foldl (step P spk) st evs))"
  by (induction evs arbitrary: st) (simp_all add: step_invariant)

lemma run_invariant: "one_record_per_day (attendance_file (run P spk evs))"
  unfolding run_def
  by (rule foldl_step_invariant) (simp add: initial_state_def one_record_per_day_def)

lemma step_effect:
  "attendance_file (step P spk st ev) = attendance_file st \<or>
   (\<exists>data clk e r. ev = Attend data clk \<and>
      find_record (attendance_file st) e (now_date clk) = None \<and>
      attendance_file (step P spk st ev) = attendance_file st @ [r] \<and>
      record_key r = (e, now_date clk) \<and> rec_out_time r = None \<and>
      resp_action (snd (api_attendance P spk st data clk)) = Some ''check-in'') \<or>
   (\<exists>data clk e i. ev = Attend data clk \<and>
      find_record (attendance_file st) e (now_date clk) = Some i \<and>
      rec_out_time (attendance_file st ! i) = None \<and> req_confirm_checkout data \<and>
      attendance_file (step P spk st ev) =
        (attendance_file st)[i := checked_out (attendance_file st ! i) clk] \<and>
      resp_action (snd (api_attendance P spk st data clk)) = Some ''check-out'')"
proof (cases ev)
  case (Register data now_iso)
  then show ?thesis by (simp add: api_register_attendance)
next
  case (Attend data clk)
  from api_attendance_effect [of P spk st data clk] show ?thesis
    unfolding Attend by auto
qed

text \<open>
  Claim C7. In every state the server reaches, and after any further request, the ledger
  holds at most one record per employee and date. No request removes a record or changes
  the employee or date of one. A record is appended only by a submission answered with
  the action \<^verbatim>\<open>check-in\<close>, when the ledger had no record for that employee and date, and
  it has no out-time. The out-time of a record changes only from none to the time of a
  submission with \<^verbatim>\<open>confirm_checkout\<close> answered with the action \<^verbatim>\<open>check-out\<close>, and a
  record that has an out-time is never changed again.
\<close>

theorem ledger_lifecycle:
  assumes reach: "st = run P spk evs"
    and nxt: "st' = step P spk st ev"
    and old: "old = attendance_file st"
    and new: "new = attendance_file st'"
  shows "one_record_per_day old \<and> one_record_per_day new \<and>
         length old \<le> length new \<and>
         (\<forall>i<length old. record_key (new ! i) = record_key (old ! i)) \<and>
         (\<forall>i<length old. rec_out_time (old ! i) \<noteq> None \<longrightarrow> new ! i = old ! i) \<and>
         (length old < length new \<longrightarrow>
            (\<exists>data clk. ev = Attend data clk \<and>
               resp_action (snd (api_attendance P spk st data clk)) = Some ''check-in'') \<and>
            new = old @ [last new] \<and> record_key (last new) \<notin> set (map record_key old) \<and>
            rec_out_time (last new) = None) \<and>
         (\<forall>i<length old. rec_out_time (new ! i) \<noteq> rec_out_time (old ! i) \<longrightarrow>
            rec_out_time (old ! i) = None \<and>
            (\<exists>data clk. ev = Attend data clk \<and> req_confirm_checkout data \<and>
               resp_action (snd (api_attendance P spk st data clk)) = Some ''check-out'' \<and>
               rec_out_time (new ! i) = Some (now_time clk)))"
proof -
  have inv_old: "one_record_per_day old"
    unfolding old reach by (rule run_invariant)
  have inv_new: "one_record_per_day new"
    unfolding new nxt using inv_old [unfolded old] by (rule step_invariant)
  from step_effect [of P spk st ev]
  consider (same) "new = old"
    | (check_in) data clk e r where "ev = Attend data clk"
        "find_record old e (now_date clk) = None" "new = old @ [r]"
        "record_key r = (e, now_date clk)" "rec_out_time r = None"
        "resp_action (snd (api_attendance P spk st data clk)) = Some ''check-in''"
    | (check_out) data clk e i where "ev = Attend data clk"
        "find_record old e (now_date clk) = Some i" "rec_out_time (old ! i) = None"
        "req_confirm_checkout data" "new = old[i := checked_out (old ! i) clk]"
        "resp_action (snd (api_attendance P spk st data clk)) = Some ''check-out''"
    unfolding old new nxt by blast
  then have rest: "length old \<le> length new \<and>
         (\<forall>i<length old. record_key (new ! i) = record_key (old ! i)) \<and>
         (\<forall>i<length old. rec_out_time (old ! i) \<noteq> None \<longrightarrow> new ! i = old ! i) \<and>
         (length old < length new \<longrightarrow>
            (\<exists>data clk. ev = Attend data clk \<and>
               resp_action (snd (api_attendance P spk st data clk)) = Some ''check-in'') \<and>
            new = old @ [last new] \<and> record_key (last new) \<notin> set (map record_key old) \<and>
            rec_out_time (last new) = None) \<and>
         (\<forall>i<length old. rec_out_time (new ! i) \<noteq> rec_out_time (old ! i) \<longrightarrow>
            rec_out_time (old ! i) = None \<and>
            (\<exists>data clk. ev = Attend data clk \<and> req_confirm_checkout data \<and>
               resp_action (snd (api_attendance P spk st data clk)) = Some ''check-out'' \<and>
               rec_out_time (new ! i) = Some (now_time clk)))"
  proof cases
    case same
    then show ?thesis by simp
  next
    case check_in
    then show ?thesis
      by (simp add: nth_append find_record_None_key)
  next
    case check_out
    from check_out(2) have i: "i < length old"
      by (simp add: find_record_SomeD)
    have nth: "\<And>j. j < length old \<Longrightarrow>
        new ! j = (if j = i then checked_out (old ! i) clk else old ! j)"
      unfolding check_out(5) by (simp add: nth_list_update)
    have out: "rec_out_time (checked_out (old ! i) clk) = Some (now_time clk)"
      by (simp add: checked_out_def)
    have len: "length new = length old"
      unfolding check_out(5) by simp
    show ?thesis
      using check_out(1,3,4,6) i len
      by (auto simp: nth record_key_checked_out out)
  qed
  from inv_old inv_new rest show ?thesis by blast
qed

theorem ledger_lifecycle_witness:
  "one_record_per_day (attendance_file (fst demo_step1)) \<and>
   one_record_per_day (attendance_file (fst demo_step3)) \<and>
   length (attendance_file (fst demo_step1)) \<le> length (attendance_file (fst demo_step3)) \<and>
   record_key (attendance_file (fst demo_step3) ! 0) =
     record_key (attendance_file (fst demo_step1) ! 0) \<and>
   rec_out_time (attendance_file (fst demo_step1) ! 0) = None \<and>
   rec_out_time (attendance_file (fst demo_step3) ! 0) = Some ''09:00:09''"
proof -
  let ?evs = "[Register demo_register ''2024-01-01T08:00:00'',
               Attend (demo_request False) (demo_clock 1005 ''09:00:05'')]"
  let ?ev = "Attend (demo_request True) (demo_clock 1009 ''09:00:09'')"
  have r: "fst demo_step1 = run demo_platform demo_key_S ?evs"
    by (simp add: run_def demo_step1_def demo_registered_def)
  have s: "fst demo_step3 = step demo_platform demo_key_S (fst demo_step1) ?ev"
    by (simp add: demo_step3_def demo_step2_eq demo_step1_eq)
  have len: "0 < length (attendance_file (fst demo_step1))"
    by (simp add: demo_step1_eq)
  from ledger_lifecycle [OF r s refl refl] len
  show ?thesis
    by (simp add: demo_step1_eq demo_step3_eq demo_record_def)
qed

section \<open>Registration\<close>

text \<open>
  Claim C8 says that a registration with a token already in the registry is answered with
  the duplicate failure. With a blank name it is not: the token \<^verbatim>\<open>E1\<close> is registered, and
  the request is answered \<^verbatim>\<open>Employee ID and Name are required\<close>.
\<close>

theorem register_duplicate_blank_name_counterexample:
  "''E1'' \<in> set (map fst (employees_file demo_registered)) \<and>
   snd (api_register demo_platform demo_registered
     \<lparr>reg_emp_id = Some ''E1'', reg_name = Some '' '', reg_email = None, reg_department = None\<rparr>
     ''2024-01-02T08:00:00'') = reg_failure ''Employee ID and Name are required'' \<and>
   snd (api_register demo_platform demo_registered
     \<lparr>reg_emp_id = Some ''E1'', reg_name = Some '' '', reg_email = None, reg_department = None\<rparr>
     ''2024-01-02T08:00:00'') \<noteq> reg_failure ''Employee E1 already registered''"
  by (simp add: demo_registered_eq api_register_def Let_def get_str_def strip_def is_space_def
      reg_failure_def)

text \<open>
  Claim C8, amended. A registration whose stripped token is already in the registry leaves
  the whole state unchanged, so the stored public key of the token is not altered; when
  the token and the name are not blank, it is answered with the duplicate failure
  \<^verbatim>\<open>Employee <id> already registered\<close>.
\<close>

theorem register_duplicate_rejected:
  assumes "strip (get_str (reg_emp_id data)) = emp_id"
    and "emp_id \<in> set (map fst (employees_file st))"
  shows "fst (api_register P st data now_iso) = st \<and>
         (emp_id \<noteq> [] \<and> \<not> blank (reg_name data) \<longrightarrow>
            snd (api_register P st data now_iso) =
              reg_failure (''Employee '' @ emp_id @ '' already registered''))"
  using assms by (auto simp: api_register_def Let_def strip_get_str_blank)

theorem register_duplicate_rejected_witness:
  "strip (get_str (reg_emp_id demo_register)) = ''E1'' \<and>
   ''E1'' \<in> set (map fst (employees_file demo_registered)) \<and>
   fst (api_register demo_platform demo_registered demo_register ''2024-01-02T08:00:00'') = demo_registered \<and>
   ''E1'' \<noteq> [] \<and> \<not> blank (reg_name demo_register) \<and>
   snd (api_register demo_platform demo_registered demo_register ''2024-01-02T08:00:00'') =
     reg_failure ''Employee E1 already registered''"
proof -
  have a: "strip (get_str (reg_emp_id demo_register)) = ''E1''"
    by (simp add: demo_register_def get_str_def strip_def is_space_def)
  have b: "''E1'' \<in> set (map fst (employees_file demo_registered))"
    by (simp add: demo_registered_eq)
  have c: "''E1'' \<noteq> [] \<and> \<not> blank (reg_name demo_register)"
    by (simp add: demo_register_def blank_def is_space_def)
  from register_duplicate_rejected [OF a b, of demo_platform "''2024-01-02T08:00:00''"] a b c
  show ?thesis by simp
qed

text \<open>
  Claim C10. A registration whose token or name is absent or holds only whitespace is
  answered \<^verbatim>\<open>Employee ID and Name are required\<close>, and the state is unchanged: the registry
  is as before and no key pair has been drawn.
\<close>

theorem register_requires_id_and_name:
  assumes "blank (reg_emp_id data) \<or> blank (reg_name data)"
  shows "api_register P st data now_iso = (st, reg_failure ''Employee ID and Name are required'')"
  using assms by (auto simp: api_register_def Let_def strip_get_str_blank)

theorem register_requires_id_and_name_witness:
  "(blank (reg_emp_id \<lparr>reg_emp_id = Some ''E2'', reg_name = Some ''  '', reg_email = None, reg_department = None\<rparr>)
   \<or> blank (reg_name \<lparr>reg_emp_id = Some ''E2'', reg_name = Some ''  '', reg_email = None, reg_department = None\<rparr>)) \<and>
   api_register demo_platform demo_registered
     \<lparr>reg_emp_id = Some ''E2'', reg_name = Some ''  '', reg_email = None, reg_department = None\<rparr> ''t''
   = (demo_registered, reg_failure ''Employee ID and Name are required'')"
proof -
  have h: "blank (reg_emp_id \<lparr>reg_emp_id = Some ''E2'', reg_name = Some ''  '', reg_email = None, reg_department = None\<rparr>)
   \<or> blank (reg_name \<lparr>reg_emp_id = Some ''E2'', reg_name = Some ''  '', reg_email = None, reg_department = None\<rparr>)"
    by (simp add: blank_def is_space_def)
  from register_requires_id_and_name [OF h, of demo_platform demo_registered "''t''"] h
  show ?thesis by simp
qed

section \<open>Confirmation without a pending check-out\<close>

text \<open>
  Claim C9. A submission with \<^verbatim>\<open>confirm_checkout\<close> that passes the tests on the
  challenge, the timestamp and the holder signature, while the ledger has no record for
  the employee and the day, appends a check-in record and is answered with the action
  \<^verbatim>\<open>check-in\<close>. Nothing is assumed about the replay table: the replay test is skipped. In
  the witness the table holds a recent use of the slot, which blocks the same submission
  without the flag.
\<close>

theorem confirm_without_record_checks_in:
  assumes acc: "challenge_accepted P spk st data emp_id employee q"
    and fresh: "\<bar>py_int (time_current clk) - qr_timestamp_of q\<bar> \<le> QR_GRACE_PERIOD"
    and holder: "holder_signature_valid P data q"
    and confirm: "req_confirm_checkout data"
    and norec: "find_record (attendance_file st) emp_id (now_date clk) = None"
  shows "api_attendance P spk st data clk =
     (st\<lparr>attendance_file := attendance_file st @
          [\<lparr>rec_emp_id = emp_id, rec_employee_name = emp_name employee, rec_date = now_date clk,
            rec_in_time = now_time clk, rec_in_timestamp = now_isoformat clk,
            rec_out_time = None, rec_out_timestamp = None, rec_status = ''Present'',
            rec_qr_timestamp = qr_timestamp_of q, rec_verified = True\<rparr>]\<rparr>,
      \<lparr>resp_success = True, resp_message = ''Check-in successful'',
       resp_employee_name = Some (emp_name employee), resp_action = Some ''check-in'',
       resp_in_time = Some (now_time clk), resp_out_time = None,
       resp_status = Some ''Present''\<rparr>)"
proof -
  have "\<not> replay_blocked st (req_confirm_checkout data) emp_id
          (get_time_slot (time_slot_read clk)) (py_int (time_current clk))"
    using confirm by (simp add: replay_blocked_def)
  with acc fresh holder
  have "passes_verification P spk st data clk emp_id employee q"
    by (simp add: passes_verification_def)
  then show ?thesis
    by (simp add: api_attendance_passes mark_attendance_check_in [OF norec])
qed

theorem confirm_without_record_checks_in_witness:
  "replay_blocked demo_used False ''E1'' (get_time_slot 1005) 1005 \<and>
   api_attendance demo_platform demo_key_S demo_used (demo_request True) (demo_clock 1005 ''09:00:05'') =
     (demo_used\<lparr>attendance_file :=
          [\<lparr>rec_emp_id = ''E1'', rec_employee_name = ''Ada'', rec_date = ''2024-01-01'',
            rec_in_time = ''09:00:05'', rec_in_timestamp = ''2024-01-01T09:00:05'',
            rec_out_time = None, rec_out_timestamp = None, rec_status = ''Present'',
            rec_qr_timestamp = 1000, rec_verified = True\<rparr>]\<rparr>,
      \<lparr>resp_success = True, resp_message = ''Check-in successful'',
       resp_employee_name = Some ''Ada'', resp_action = Some ''check-in'',
       resp_in_time = Some ''09:00:05'', resp_out_time = None,
       resp_status = Some ''Present''\<rparr>)"
proof -
  have fresh: "\<bar>py_int (time_current (demo_clock 1005 ''09:00:05'')) - qr_timestamp_of demo_qr\<bar>
                 \<le> QR_GRACE_PERIOD"
    by (simp add: demo_clock_def py_int_def qr_timestamp_of_def demo_qr_eq QR_GRACE_PERIOD_def)
  have confirm: "req_confirm_checkout (demo_request True)"
    by (simp add: demo_request_def)
  have norec: "find_record (attendance_file demo_used) ''E1''
                 (now_date (demo_clock 1005 ''09:00:05'')) = None"
    by (simp add: demo_used_def demo_registered_eq)
  show ?thesis
    using confirm_without_record_checks_in [OF demo_used_accepted fresh demo_holder confirm norec]
      demo_used_blocked
    by (simp add: demo_clock_def demo_employee_def qr_timestamp_of_def demo_qr_eq demo_used_def
        demo_registered_eq)
qed

end
